theory Spec2Isabelle
  imports Main
begin

section \<open>Go errors and \<open>errors.Join\<close>\<close>

text \<open>
  A Go \<open>error\<close> value is either \<open>nil\<close> or an error object. The objects that occur in the
  program are plain errors carrying a message and the \<open>joinError\<close> that the standard
  library's \<open>errors.Join\<close> builds around a list of errors.
\<close>

datatype err = Err string | joinError "err list"

type_synonym error = "err option"

text \<open>
  \<open>errors.Join(errs...)\<close> discards the \<open>nil\<close> arguments, returns \<open>nil\<close> when nothing is
  left, and otherwise wraps the remaining errors, in argument order, in one \<open>joinError\<close>.
\<close>

definition errors_Join :: "error list \<Rightarrow> error" where
  "errors_Join errs =
     (let es = List.map_filter id errs
      in if es = [] then None else Some (joinError es))"

text \<open>The \<open>Error()\<close> method: a \<open>joinError\<close> prints its members separated by newlines.\<close>

fun join_lines :: "string list \<Rightarrow> string" where
  "join_lines [] = []"
| "join_lines [s] = s"
| "join_lines (s # t # ss) = s @ [CHR 0x0A] @ join_lines (t # ss)"

fun Error :: "err \<Rightarrow> string" where
  "Error (Err s) = s"
| "Error (joinError es) = join_lines (map Error es)"

text \<open>
  The plain errors found in the tree of an error, left to right: what \<open>errors.Is\<close> and
  \<open>errors.As\<close> traverse. \<open>nil\<close> holds none.
\<close>

fun leaves :: "err \<Rightarrow> err list" where
  "leaves (Err s) = [Err s]"
| "leaves (joinError es) = concat (map leaves es)"

definition error_leaves :: "error \<Rightarrow> err list" where
  "error_leaves e = (case e of None \<Rightarrow> [] | Some x \<Rightarrow> leaves x)"

section \<open>The telemetry pipeline builder (package otel and \<open>src/otel.go\<close>)\<close>

text \<open>
  The two contexts the program passes around: \<open>context.Background()\<close> and the context
  returned by \<open>signal.NotifyContext\<close>.
\<close>

datatype ctx = Background | NotifyContext

text \<open>
  A registered teardown function is a bound method \<open>provider.Shutdown\<close> of the SDK. It
  is effectful: it takes the context, acts on the SDK's internal state \<open>'w\<close> and returns
  an error or \<open>nil\<close>. The name identifies the provider it belongs to.
\<close>

datatype 'w callback =
  Callback (cb_name: string) (cb_call: "ctx \<Rightarrow> 'w \<Rightarrow> error \<times> 'w")

datatype propagator = TraceContext | Baggage | Composite "propagator list"

text \<open>
  The state the builder works on: the closure variable \<open>shutdownFuncs\<close> shared by
  \<open>shutdown\<close>, \<open>handleErr\<close> and the builder's body, the process-wide registrations of the
  \<open>otel\<close> and \<open>global\<close> packages, and the SDK's internal state. \<open>teardowns\<close> is a history
  variable: every invocation of a teardown function appends the provider's name and the
  error the call returned. \<open>calls\<close> is a second history variable: the builder's calls
  into the SDK (installing a global, constructing a provider), in program order.
\<close>

datatype sdk_call =
    Call_SetTextMapPropagator propagator
  | Call_newTracerProvider
  | Call_SetTracerProvider string
  | Call_newMeterProvider
  | Call_SetMeterProvider string
  | Call_newLoggerProvider
  | Call_SetLoggerProvider string

record 'w otel_state =
  shutdownFuncs :: "'w callback list"
  textMapPropagator :: "propagator option"
  tracerProvider :: "string option"
  meterProvider :: "string option"
  loggerProvider :: "string option"
  teardowns :: "(string \<times> error) list"
  calls :: "sdk_call list"
  sdk :: "'w"

text \<open>
  The loop of \<open>shutdown\<close>:
  \<^verbatim>\<open>for _, fn := range shutdownFuncs { err = errors.Join(err, fn(ctx)) }\<close>
\<close>

fun shutdown_range ::
  "ctx \<Rightarrow> 'w callback list \<Rightarrow> error \<times> (string \<times> error) list \<times> 'w
     \<Rightarrow> error \<times> (string \<times> error) list \<times> 'w" where
  "shutdown_range c [] acc = acc"
| "shutdown_range c (fn # fns) (err, hist, w) =
     (case cb_call fn c w of
        (e, w') \<Rightarrow> shutdown_range c fns (errors_Join [err, e], hist @ [(cb_name fn, e)], w'))"

text \<open>
  \<open>shutdown\<close>: run the loop from \<open>err = nil\<close>, then \<open>shutdownFuncs = nil\<close>, then return
  \<open>err\<close>. The closure is the same text in \<open>SetupOTelSDK\<close> and in \<open>setupOTelSDK\<close>.
\<close>

definition shutdown :: "ctx \<Rightarrow> 'w otel_state \<Rightarrow> error \<times> 'w otel_state" where
  "shutdown c s =
     (case shutdown_range c (shutdownFuncs s) (None, teardowns s, sdk s) of
        (err, hist, w) \<Rightarrow> (err, s\<lparr>shutdownFuncs := [], teardowns := hist, sdk := w\<rparr>))"

text \<open>\<open>handleErr\<close>: \<open>err = errors.Join(inErr, shutdown(ctx))\<close>.\<close>

definition handleErr :: "ctx \<Rightarrow> err \<Rightarrow> 'w otel_state \<Rightarrow> error \<times> 'w otel_state" where
  "handleErr c inErr s =
     (case shutdown c s of (e, s') \<Rightarrow> (errors_Join [Some inErr, e], s'))"

text \<open>
  The exporter constructors of the SDK are outside the repository. Each either fails
  with an error or succeeds, and then the provider built around the exporter has the
  given \<open>Shutdown\<close> method.
\<close>

record 'w sdk_env =
  otlptracegrpc_New :: "string \<Rightarrow> err + 'w callback"
  stdoutmetric_New :: "err + 'w callback"
  stdoutlog_New :: "err + 'w callback"

text \<open>Package otel (\<open>src/unnamed/part_000\<close>).\<close>

definition newTracerProvider ::
  "'w sdk_env \<Rightarrow> string \<Rightarrow> string \<Rightarrow> err + 'w callback" where
  "newTracerProvider env serviceName endpoint =
     (let endpoint' = (if endpoint = [] then ''localhost:4317'' else endpoint)
      in case otlptracegrpc_New env endpoint' of
           Inl e \<Rightarrow> Inl e
         | Inr tp \<Rightarrow> Inr tp)"

definition newMeterProvider :: "'w sdk_env \<Rightarrow> err + 'w callback" where
  "newMeterProvider env =
     (case stdoutmetric_New env of
        Inl e \<Rightarrow> Inl e
      | Inr mp \<Rightarrow> Inr mp)"

definition newLoggerProvider :: "'w sdk_env \<Rightarrow> err + 'w callback" where
  "newLoggerProvider env =
     (case stdoutlog_New env of
        Inl e \<Rightarrow> Inl e
      | Inr lp \<Rightarrow> Inr lp)"

definition newPropagator :: propagator where
  "newPropagator = Composite [TraceContext, Baggage]"

text \<open>
  The statements of the builder's body. \<open>otel.SetTextMapPropagator\<close>,
  \<open>otel.SetTracerProvider\<close>, \<open>otel.SetMeterProvider\<close> and \<open>global.SetLoggerProvider\<close>
  replace a process-wide registration; \<open>append\<close> extends the closure variable.
\<close>

definition called :: "sdk_call \<Rightarrow> 'w otel_state \<Rightarrow> 'w otel_state" where
  "called k s = s\<lparr>calls := calls s @ [k]\<rparr>"

definition SetTextMapPropagator :: "propagator \<Rightarrow> 'w otel_state \<Rightarrow> 'w otel_state" where
  "SetTextMapPropagator p s =
     called (Call_SetTextMapPropagator p) (s\<lparr>textMapPropagator := Some p\<rparr>)"

definition SetTracerProvider :: "'w callback \<Rightarrow> 'w otel_state \<Rightarrow> 'w otel_state" where
  "SetTracerProvider tp s =
     called (Call_SetTracerProvider (cb_name tp)) (s\<lparr>tracerProvider := Some (cb_name tp)\<rparr>)"

definition SetMeterProvider :: "'w callback \<Rightarrow> 'w otel_state \<Rightarrow> 'w otel_state" where
  "SetMeterProvider mp s =
     called (Call_SetMeterProvider (cb_name mp)) (s\<lparr>meterProvider := Some (cb_name mp)\<rparr>)"

definition SetLoggerProvider :: "'w callback \<Rightarrow> 'w otel_state \<Rightarrow> 'w otel_state" where
  "SetLoggerProvider lp s =
     called (Call_SetLoggerProvider (cb_name lp)) (s\<lparr>loggerProvider := Some (cb_name lp)\<rparr>)"

definition append_shutdownFuncs :: "'w callback \<Rightarrow> 'w otel_state \<Rightarrow> 'w otel_state" where
  "append_shutdownFuncs fn s = s\<lparr>shutdownFuncs := shutdownFuncs s @ [fn]\<rparr>"

text \<open>
  \<open>SetupOTelSDK\<close> returns the \<open>shutdown\<close> closure and \<open>err\<close>. The closure is represented
  by the state it closes over: invoking the returned function on context \<open>c\<close> is
  \<open>shutdown c\<close> applied to the returned state. \<open>err\<close> is the one variable declared at
  the top of the function: every \<open>:=\<close> below assigns to it and \<open>handleErr\<close> overwrites it,
  so that \<open>return shutdown, err\<close> after \<open>handleErr(err)\<close> returns the joined error.
\<close>

definition SetupOTelSDK ::
  "ctx \<Rightarrow> string \<Rightarrow> string \<Rightarrow> 'w sdk_env \<Rightarrow> 'w otel_state \<Rightarrow> 'w otel_state \<times> error" where
  "SetupOTelSDK c serviceName otlpEndpoint env s0 =
     (let s1 = s0\<lparr>shutdownFuncs := []\<rparr>;
          s2 = SetTextMapPropagator (Composite [TraceContext, Baggage]) s1;
          s3 = called Call_newTracerProvider s2
      in case newTracerProvider env serviceName otlpEndpoint of
           Inl e \<Rightarrow> (case handleErr c e s3 of (err, s) \<Rightarrow> (s, err))
         | Inr tp \<Rightarrow>
             (let s4 = append_shutdownFuncs tp s3;
                  s5 = SetTracerProvider tp s4;
                  s6 = called Call_newMeterProvider s5
              in case newMeterProvider env of
                   Inl e \<Rightarrow> (case handleErr c e s6 of (err, s) \<Rightarrow> (s, err))
                 | Inr mp \<Rightarrow>
                     (let s7 = append_shutdownFuncs mp s6;
                          s8 = SetMeterProvider mp s7;
                          s9 = called Call_newLoggerProvider s8
                      in case newLoggerProvider env of
                           Inl e \<Rightarrow> (case handleErr c e s9 of (err, s) \<Rightarrow> (s, err))
                         | Inr lp \<Rightarrow>
                             (let s10 = append_shutdownFuncs lp s9;
                                  s11 = SetLoggerProvider lp s10
                              in (s11, None)))))"

text \<open>
  Package main of \<open>src/otel.go\<close>: the same builder without parameters; its
  \<open>newTracerProvider\<close> always dials \<open>localhost:4317\<close>.
\<close>

definition newTracerProvider_main :: "'w sdk_env \<Rightarrow> err + 'w callback" where
  "newTracerProvider_main env =
     (case otlptracegrpc_New env ''localhost:4317'' of
        Inl e \<Rightarrow> Inl e
      | Inr tp \<Rightarrow> Inr tp)"

definition setupOTelSDK ::
  "ctx \<Rightarrow> 'w sdk_env \<Rightarrow> 'w otel_state \<Rightarrow> 'w otel_state \<times> error" where
  "setupOTelSDK c env s0 =
     (let s1 = s0\<lparr>shutdownFuncs := []\<rparr>;
          prop = newPropagator;
          s2 = SetTextMapPropagator prop s1;
          s3 = called Call_newTracerProvider s2
      in case newTracerProvider_main env of
           Inl e \<Rightarrow> (case handleErr c e s3 of (err, s) \<Rightarrow> (s, err))
         | Inr tp \<Rightarrow>
             (let s4 = append_shutdownFuncs tp s3;
                  s5 = SetTracerProvider tp s4;
                  s6 = called Call_newMeterProvider s5
              in case newMeterProvider env of
                   Inl e \<Rightarrow> (case handleErr c e s6 of (err, s) \<Rightarrow> (s, err))
                 | Inr mp \<Rightarrow>
                     (let s7 = append_shutdownFuncs mp s6;
                          s8 = SetMeterProvider mp s7;
                          s9 = called Call_newLoggerProvider s8
                      in case newLoggerProvider env of
                           Inl e \<Rightarrow> (case handleErr c e s9 of (err, s) \<Rightarrow> (s, err))
                         | Inr lp \<Rightarrow>
                             (let s10 = append_shutdownFuncs lp s9;
                                  s11 = SetLoggerProvider lp s10
                              in (s11, None)))))"

text \<open>
  A caller that invokes the returned shutdown function several times in a row, once per
  context of the list; the errors returned, in order, and the state left behind.
\<close>

fun shutdown_seq :: "ctx list \<Rightarrow> 'w otel_state \<Rightarrow> error list \<times> 'w otel_state" where
  "shutdown_seq [] s = ([], s)"
| "shutdown_seq (c # cs) s =
     (case shutdown c s of
        (e, s') \<Rightarrow> (case shutdown_seq cs s' of (es, s'') \<Rightarrow> (e # es, s'')))"

text \<open>
  The coordinator as the specification words it, without the accumulators of the loop:
  call every function of the list, first to last, whatever the earlier ones returned,
  each on the SDK state its predecessor left; the results are what each call returned,
  in that order, and the SDK state after the last call.
\<close>

fun call_each :: "ctx \<Rightarrow> 'w callback list \<Rightarrow> 'w \<Rightarrow> error list \<times> 'w" where
  "call_each c [] w = ([], w)"
| "call_each c (fn # fns) w =
     (case cb_call fn c w of
        (e, w') \<Rightarrow> (case call_each c fns w' of (es, w'') \<Rightarrow> (e # es, w'')))"

text \<open>The teardown invocations recorded between an earlier state and a later one.\<close>

definition invocations_since ::
  "'w otel_state \<Rightarrow> 'w otel_state \<Rightarrow> (string \<times> error) list" where
  "invocations_since s s' = drop (length (teardowns s)) (teardowns s')"

text \<open>
  What a failed build leaves behind, for a build \<open>R\<close> run on context \<open>c\<close> from state \<open>s0\<close>
  whose constructor failed with \<open>e\<close> after the providers \<open>built\<close> had been built: an
  error is returned; it consists of \<open>e\<close> followed by what the teardown functions of
  \<open>built\<close> returned; each of them has been called, once and in build order, on the SDK
  state its predecessor left, and the SDK is in the state the last call left; the
  history records these calls and no other; nothing is left registered.
\<close>

definition torn_down ::
  "ctx \<Rightarrow> 'w otel_state \<Rightarrow> 'w otel_state \<times> error \<Rightarrow> err \<Rightarrow> 'w callback list \<Rightarrow> bool" where
  "torn_down c s0 R e built \<longleftrightarrow>
     snd R \<noteq> None
     \<and> error_leaves (snd R)
         = leaves e @ concat (map error_leaves (fst (call_each c built (sdk s0))))
     \<and> sdk (fst R) = snd (call_each c built (sdk s0))
     \<and> teardowns (fst R)
         = teardowns s0 @ zip (map cb_name built) (fst (call_each c built (sdk s0)))
     \<and> map fst (invocations_since s0 (fst R)) = map cb_name built
     \<and> shutdownFuncs (fst R) = []"

section \<open>The process lifecycle controller (\<open>run\<close>)\<close>

text \<open>
  After the listener has been started, \<open>run\<close> waits in a \<open>select\<close> for whichever comes
  first: the listener's own error on \<open>srvErr\<close>, or the cancellation of the signal
  context, after which it calls \<open>srv.Shutdown\<close>. Which branch is taken, and the error
  involved, is decided outside the program.
\<close>

datatype serve_outcome =
    ListenerFailed err    \<comment> \<open>\<open>case err = <-srvErr\<close>: \<open>ListenAndServe\<close> returned this error\<close>
  | Interrupted error     \<comment> \<open>\<open>case <-ctx.Done()\<close>: \<open>srv.Shutdown\<close> returned this error or \<open>nil\<close>\<close>

text \<open>
  What a call of \<open>run\<close> leaves: the value it returns to \<open>main\<close>, the final value of its
  local variable \<open>err\<close>, and the state of the telemetry pipeline.
\<close>

record 'w run_result =
  returned :: error
  err_var :: error
  pipeline :: "'w otel_state"

text \<open>
  \<open>run\<close> is declared \<open>func run() error\<close>: its result has no name. A \<open>return err\<close> copies
  the value of the local variable \<open>err\<close> into the result and only then runs the deferred
  functions. The deferred closure
  \<^verbatim>\<open>err = errors.Join(err, otelShutdown(context.Background()))\<close>
  assigns the local variable; the result has been set already. The first \<open>return err\<close>,
  after a failed build, comes before the \<open>defer\<close> statement, so that only \<open>stop\<close> is
  deferred there.

  The function is the same text in the three services, up to the constant
  \<open>serviceName\<close> and the port; \<open>OTEL_EXPORTER_OTLP_ENDPOINT\<close> is the value of the
  environment variable, empty when unset.
\<close>

definition run ::
  "string \<Rightarrow> string \<Rightarrow> 'w sdk_env \<Rightarrow> serve_outcome \<Rightarrow> 'w otel_state \<Rightarrow> 'w run_result" where
  "run serviceName OTEL_EXPORTER_OTLP_ENDPOINT env outcome s0 =
     (let otlpEndpoint =
            (if OTEL_EXPORTER_OTLP_ENDPOINT = [] then ''localhost:4317''
             else OTEL_EXPORTER_OTLP_ENDPOINT)
      in case SetupOTelSDK NotifyContext serviceName otlpEndpoint env s0 of
           (otelShutdown, err) \<Rightarrow>
             if err \<noteq> None
             then \<lparr>returned = err, err_var = err, pipeline = otelShutdown\<rparr>
             else
               (let err1 = (case outcome of ListenerFailed e \<Rightarrow> Some e | Interrupted d \<Rightarrow> d);
                    result = err1
                in case shutdown Background otelShutdown of
                     (t, s') \<Rightarrow>
                       \<lparr>returned = result, err_var = errors_Join [err1, t], pipeline = s'\<rparr>))"

text \<open>\<open>run\<close> of \<open>src/main.go\<close>: the same function over \<open>setupOTelSDK\<close>.\<close>

definition run_main :: "'w sdk_env \<Rightarrow> serve_outcome \<Rightarrow> 'w otel_state \<Rightarrow> 'w run_result" where
  "run_main env outcome s0 =
     (case setupOTelSDK NotifyContext env s0 of
        (otelShutdown, err) \<Rightarrow>
          if err \<noteq> None
          then \<lparr>returned = err, err_var = err, pipeline = otelShutdown\<rparr>
          else
            (let err1 = (case outcome of ListenerFailed e \<Rightarrow> Some e | Interrupted d \<Rightarrow> d);
                 result = err1
             in case shutdown Background otelShutdown of
                  (t, s') \<Rightarrow>
                    \<lparr>returned = result, err_var = errors_Join [err1, t], pipeline = s'\<rparr>))"

section \<open>The service nodes\<close>

subsection \<open>JSON values, bodies and the response writer\<close>

text \<open>
  JSON values: as the text of a body denotes them, and as the program holds them in
  \<open>interface{}\<close> and \<open>map[string]interface{}\<close> after decoding. An object is the list of
  its members, in text order; a number is its literal, which as a decoded value stands
  for the \<open>float64\<close> nearest to it.
\<close>

datatype json =
    JNull
  | JBool bool
  | JNumber string
  | JString string
  | JArray "json list"
  | JObject "(string \<times> json) list"

fun jget :: "json \<Rightarrow> string \<Rightarrow> json option" where
  "jget (JObject kvs) k = map_of kvs k"
| "jget _ k = None"

fun jpath :: "json \<Rightarrow> string list \<Rightarrow> json option" where
  "jpath v [] = Some v"
| "jpath v (k # ks) = (case jget v k of None \<Rightarrow> None | Some v' \<Rightarrow> jpath v' ks)"

text \<open>
  What a handler writes to its \<open>http.ResponseWriter\<close>: the output of
  \<open>json.NewEncoder(w).Encode(v)\<close>, which stands for the JSON text of \<open>v\<close>, or plain bytes.
\<close>

datatype chunk = Encoded json | Bytes string

record response =
  header :: "(string \<times> string) list"
  wroteHeader :: "nat option"
  out :: "chunk list"

definition ResponseWriter0 :: response where
  "ResponseWriter0 = \<lparr>header = [], wroteHeader = None, out = []\<rparr>"

definition Header_Del :: "string \<Rightarrow> response \<Rightarrow> response" where
  "Header_Del k w = w\<lparr>header := filter (\<lambda>kv. fst kv \<noteq> k) (header w)\<rparr>"

definition Header_Set :: "string \<Rightarrow> string \<Rightarrow> response \<Rightarrow> response" where
  "Header_Set k v w = w\<lparr>header := filter (\<lambda>kv. fst kv \<noteq> k) (header w) @ [(k, v)]\<rparr>"

definition Header_Get :: "response \<Rightarrow> string \<Rightarrow> string option" where
  "Header_Get w k = map_of (header w) k"

text \<open>
  \<open>WriteHeader\<close> fixes the status code once; a \<open>Write\<close> before any \<open>WriteHeader\<close> sends
  status 200 first.
\<close>

definition WriteHeader :: "nat \<Rightarrow> response \<Rightarrow> response" where
  "WriteHeader code w = (if wroteHeader w = None then w\<lparr>wroteHeader := Some code\<rparr> else w)"

definition Write :: "chunk \<Rightarrow> response \<Rightarrow> response" where
  "Write b w = (let w' = WriteHeader 200 w in w'\<lparr>out := out w' @ [b]\<rparr>)"

text \<open>
  \<open>http.Error(w, error, code)\<close> of the standard library: it sets the plain-text content
  type, writes the status code and prints the message followed by a newline.
\<close>

definition http_Error :: "response \<Rightarrow> string \<Rightarrow> nat \<Rightarrow> response" where
  "http_Error w msg code =
     Write (Bytes (msg @ [CHR 0x0A]))
       (WriteHeader code
          (Header_Set ''X-Content-Type-Options'' ''nosniff''
             (Header_Set ''Content-Type'' ''text/plain; charset=utf-8''
                (Header_Del ''Content-Length'' w))))"

definition json_Encode :: "json \<Rightarrow> response \<Rightarrow> response" where
  "json_Encode v w = Write (Encoded v) w"

subsection \<open>Spans\<close>

text \<open>
  The calls a handler makes on its spans, in program order. A span is identified by
  the name given to \<open>tracer.Start\<close>; within one request every name is started once.
\<close>

datatype attr = String_attr string string | Int_attr string int

datatype event =
    Start string
  | SetAttributes string "attr list"
  | RecordError string err
  | End string

type_synonym 'a traced = "'a \<times> event list"

text \<open>
  \<^verbatim>\<open>ctx, span := tracer.Start(ctx, name); defer span.End()\<close> at the head of a function:
  the span is started, the body runs, and \<open>End\<close> runs when the function returns, on
  every return path.
\<close>

definition with_span :: "string \<Rightarrow> 'a traced \<Rightarrow> 'a traced" where
  "with_span name body = (fst body, Start name # snd body @ [End name])"

subsection \<open>The outbound call\<close>

text \<open>
  The body of a downstream response as \<open>json.Unmarshal\<close> sees it: the text of a JSON
  value, or bytes that are no JSON text, for which the decoder reports a syntax error.
\<close>

datatype payload = JSONText json | NotJSON err

text \<open>
  What the library calls of an outbound call come to:
  \<open>http.NewRequestWithContext\<close> fails; or \<open>client.Do\<close> fails (no connection, the 5
  second timeout, a cancelled context); or a response with a status code arrives and
  \<open>io.ReadAll\<close> of its body fails; or the status code and the whole body arrive.
\<close>

datatype exchange =
    NewRequestError err
  | DoError err
  | ReadAllError nat err
  | Received nat payload

text \<open>
  The value \<open>strconv\<close> reads from a number literal of the JSON grammar (optional minus
  sign, integer part without a leading zero unless it is the single digit zero,
  optional fraction, optional exponent): the pair \<open>(m, e)\<close> stands for \<open>m\<close> times ten to
  the \<open>e\<close>. A string that is no such literal has no value.
\<close>

definition digit_val :: "char \<Rightarrow> nat option" where
  "digit_val c =
     (let n = (of_char c :: nat) in if 48 \<le> n \<and> n \<le> 57 then Some (n - 48) else None)"

fun digits_value :: "int \<Rightarrow> string \<Rightarrow> int option" where
  "digits_value acc [] = Some acc"
| "digits_value acc (c # cs) =
     (case digit_val c of None \<Rightarrow> None | Some d \<Rightarrow> digits_value (10 * acc + int d) cs)"

text \<open>
  The digits of an exponent as \<open>strconv\<close> reads them: it stops adding digits once the
  exponent has reached 10000, which is beyond every \<open>float64\<close> already.
\<close>

fun exponent_digits :: "int \<Rightarrow> string \<Rightarrow> int option" where
  "exponent_digits acc [] = Some acc"
| "exponent_digits acc (c # cs) =
     (case digit_val c of
        None \<Rightarrow> None
      | Some d \<Rightarrow> exponent_digits (if acc < 10000 then 10 * acc + int d else acc) cs)"

definition exponent_value :: "string \<Rightarrow> int option" where
  "exponent_value ex =
     (if ex = [] then Some 0
      else let t = tl ex
           in if t = [] then None
              else if hd t = CHR ''-''
                   then (if tl t = [] then None else map_option uminus (exponent_digits 0 (tl t)))
              else if hd t = CHR ''+''
                   then (if tl t = [] then None else exponent_digits 0 (tl t))
              else exponent_digits 0 t)"

definition number_value :: "string \<Rightarrow> (int \<times> int) option" where
  "number_value s =
     (let neg = (s \<noteq> [] \<and> hd s = CHR ''-'');
          body = (if neg then tl s else s);
          mant = takeWhile (\<lambda>c. c \<noteq> CHR ''e'' \<and> c \<noteq> CHR ''E'') body;
          ex = dropWhile (\<lambda>c. c \<noteq> CHR ''e'' \<and> c \<noteq> CHR ''E'') body;
          ip = takeWhile (\<lambda>c. c \<noteq> CHR ''.'') mant;
          fp = dropWhile (\<lambda>c. c \<noteq> CHR ''.'') mant;
          frac = (if fp = [] then [] else tl fp)
      in if ip = [] \<or> (hd ip = CHR ''0'' \<and> tl ip \<noteq> []) \<or> (fp \<noteq> [] \<and> frac = []) then None
         else case digits_value 0 (ip @ frac) of
                None \<Rightarrow> None
              | Some m \<Rightarrow>
                  (case exponent_value ex of
                     None \<Rightarrow> None
                   | Some x \<Rightarrow> Some (if neg then - m else m, x - int (length frac))))"

text \<open>
  \<open>strconv.ParseFloat(s, 64)\<close> on a number literal: it rounds to the nearest \<open>float64\<close>
  and fails with a range error when the result is infinite, which is from half way
  between the largest finite \<open>float64\<close> and \<open>2 ^ 1024\<close> on. Small values round to zero
  without error.
\<close>

definition within_float64 :: "string \<Rightarrow> bool" where
  "within_float64 s =
     (case number_value s of
        None \<Rightarrow> False
      | Some (m, e) \<Rightarrow>
          if 0 \<le> e then \<bar>m\<bar> * 10 ^ nat e < 2 ^ 1024 - 2 ^ 970
          else \<bar>m\<bar> < (2 ^ 1024 - 2 ^ 970) * 10 ^ nat (- e))"

text \<open>
  The decoder of \<open>encoding/json\<close> on a number that goes into an \<open>interface{}\<close>
  (\<open>convertNumber\<close>): the literal is parsed as a \<open>float64\<close>, and a failure to parse is an
  \<open>UnmarshalTypeError\<close>.
\<close>

definition convertNumber :: "string \<Rightarrow> error" where
  "convertNumber s =
     (if within_float64 s then None
      else Some (Err (''json: cannot unmarshal number '' @ s
                        @ '' into Go value of type float64'')))"

text \<open>
  The decoder goes through the value in text order and keeps the first error it meets
  (\<open>saveError\<close>); \<open>Unmarshal\<close> returns it at the end.
\<close>

fun first_error :: "error list \<Rightarrow> error" where
  "first_error [] = None"
| "first_error (None # es) = first_error es"
| "first_error (Some e # es) = Some e"

fun saved_error :: "json \<Rightarrow> error" where
  "saved_error (JNumber s) = convertNumber s"
| "saved_error (JArray vs) = first_error (map saved_error vs)"
| "saved_error (JObject kvs) = first_error (map (\<lambda>(k, v). saved_error v) kvs)"
| "saved_error v = None"

text \<open>
  The value decoded: an object becomes a Go map, in which a later member replaces an
  earlier one of the same key.
\<close>

fun assign :: "string \<Rightarrow> json \<Rightarrow> (string \<times> json) list \<Rightarrow> (string \<times> json) list" where
  "assign k v [] = [(k, v)]"
| "assign k v ((k', v') # m) = (if k' = k then (k, v) # m else (k', v') # assign k v m)"

fun decoded :: "json \<Rightarrow> json" where
  "decoded (JArray vs) = JArray (map decoded vs)"
| "decoded (JObject kvs) =
     JObject (foldl (\<lambda>m (k, v). assign k v m) [] (map (\<lambda>(k, v). (k, decoded v)) kvs))"
| "decoded v = v"

text \<open>
  The scanner of \<open>encoding/json\<close> refuses a text whose arrays and objects are nested
  deeper than \<open>maxNestingDepth\<close>.
\<close>

fun depth :: "json \<Rightarrow> nat" where
  "depth (JArray vs) = Suc (foldr max (map depth vs) 0)"
| "depth (JObject kvs) = Suc (foldr max (map (\<lambda>(k, v). depth v) kvs) 0)"
| "depth v = 0"

definition maxNestingDepth :: nat where
  "maxNestingDepth = 10000"

text \<open>
  \<open>json.Unmarshal(body, &result)\<close> with \<open>result\<close> of type \<open>map[string]interface{}\<close>. The
  text is checked first: bytes that are no JSON text, or a text nested too deep, are a
  syntax error. Then an object fills the map, unless a number in it does not fit a
  \<open>float64\<close>; \<open>null\<close> leaves the map \<open>nil\<close> without error; every other JSON value is an
  \<open>UnmarshalTypeError\<close>. The \<open>nil\<close> map is \<open>JNull\<close>, as it is encoded.
\<close>

fun json_Unmarshal :: "payload \<Rightarrow> err + json" where
  "json_Unmarshal (NotJSON e) = Inl e"
| "json_Unmarshal (JSONText v) =
     (if maxNestingDepth < depth v then Inl (Err ''exceeded max depth'')
      else case v of
             JObject kvs \<Rightarrow>
               (case saved_error (JObject kvs) of
                  Some e \<Rightarrow> Inl e
                | None \<Rightarrow> Inr (decoded (JObject kvs)))
           | JNull \<Rightarrow> Inr JNull
           | JBool b \<Rightarrow>
               Inl (Err ''json: cannot unmarshal bool into Go value of type map[string]interface {}'')
           | JNumber n \<Rightarrow>
               Inl (Err ''json: cannot unmarshal number into Go value of type map[string]interface {}'')
           | JString s' \<Rightarrow>
               Inl (Err ''json: cannot unmarshal string into Go value of type map[string]interface {}'')
           | JArray vs \<Rightarrow>
               Inl (Err ''json: cannot unmarshal array into Go value of type map[string]interface {}''))"

text \<open>
  \<open>callAppB\<close> (app-a) and \<open>callAppC\<close> (app-b). \<open>http_get\<close> tells, for the URL requested,
  what the exchange comes to.
\<close>

definition callAppB :: "(string \<Rightarrow> exchange) \<Rightarrow> string \<Rightarrow> (err + json) traced" where
  "callAppB http_get url =
     with_span ''callAppB''
       (let ev = [SetAttributes ''callAppB'' [String_attr ''app.b.url'' url]]
        in case http_get (url @ ''/'') of
             NewRequestError e \<Rightarrow> (Inl e, ev)
           | DoError e \<Rightarrow> (Inl e, ev)
           | ReadAllError code e \<Rightarrow> (Inl e, ev)
           | Received code body \<Rightarrow>
               (case json_Unmarshal body of
                  Inl e \<Rightarrow> (Inl e, ev)
                | Inr result \<Rightarrow>
                    (Inr result,
                     ev @ [SetAttributes ''callAppB'' [Int_attr ''http.status_code'' (int code)]])))"

definition callAppC :: "(string \<Rightarrow> exchange) \<Rightarrow> string \<Rightarrow> (err + json) traced" where
  "callAppC http_get url =
     with_span ''callAppC''
       (let ev = [SetAttributes ''callAppC'' [String_attr ''app.c.url'' url]]
        in case http_get (url @ ''/'') of
             NewRequestError e \<Rightarrow> (Inl e, ev)
           | DoError e \<Rightarrow> (Inl e, ev)
           | ReadAllError code e \<Rightarrow> (Inl e, ev)
           | Received code body \<Rightarrow>
               (case json_Unmarshal body of
                  Inl e \<Rightarrow> (Inl e, ev)
                | Inr result \<Rightarrow>
                    (Inr result,
                     ev @ [SetAttributes ''callAppC'' [Int_attr ''http.status_code'' (int code)]])))"

subsection \<open>The handlers\<close>

text \<open>
  A request as the handlers read it: \<open>r.Method\<close>, \<open>r.URL.Path\<close> and the span that
  \<open>r.Context()\<close> carries, if any.
\<close>

record request =
  Method :: string
  Path :: string
  ctx_span :: "string option"

type_synonym handler = "request \<Rightarrow> response \<Rightarrow> response traced"

definition handleRoot_a :: "(string \<Rightarrow> exchange) \<Rightarrow> string \<Rightarrow> handler" where
  "handleRoot_a http_get APP_B_URL r w =
     with_span ''handleRoot''
       (let ev = [SetAttributes ''handleRoot''
                    [String_attr ''http.method'' (Method r), String_attr ''http.path'' (Path r)]];
            appBURL = (if APP_B_URL = [] then ''http://localhost:8081'' else APP_B_URL)
        in case callAppB http_get appBURL of
             (Inl err, ev') \<Rightarrow>
               (http_Error w (Error err) 500, ev @ ev' @ [RecordError ''handleRoot'' err])
           | (Inr result, ev') \<Rightarrow>
               (let response = JObject [(''service'', JString ''app-a''),
                                        (''message'', JString ''Chamou App B com sucesso''),
                                        (''result'', result)]
                in (json_Encode response (Header_Set ''Content-Type'' ''application/json'' w),
                    ev @ ev')))"

definition handleRoot_b :: "(string \<Rightarrow> exchange) \<Rightarrow> string \<Rightarrow> handler" where
  "handleRoot_b http_get APP_C_URL r w =
     with_span ''handleRoot''
       (let ev = [SetAttributes ''handleRoot''
                    [String_attr ''http.method'' (Method r), String_attr ''http.path'' (Path r)]];
            appCURL = (if APP_C_URL = [] then ''http://localhost:8082'' else APP_C_URL)
        in case callAppC http_get appCURL of
             (Inl err, ev') \<Rightarrow>
               (http_Error w (Error err) 500, ev @ ev' @ [RecordError ''handleRoot'' err])
           | (Inr result, ev') \<Rightarrow>
               (let response = JObject [(''service'', JString ''app-b''),
                                        (''message'', JString ''Chamou App C com sucesso''),
                                        (''result'', result)]
                in (json_Encode response (Header_Set ''Content-Type'' ''application/json'' w),
                    ev @ ev')))"

definition handleRoot_c :: handler where
  "handleRoot_c r w =
     with_span ''handleRoot''
       (let ev = [SetAttributes ''handleRoot''
                    [String_attr ''http.method'' (Method r), String_attr ''http.path'' (Path r)]];
            response = JObject [(''service'', JString ''app-c''),
                                (''message'', JString ''Resposta final do App C''),
                                (''status'', JString ''success'')];
            ev' = [SetAttributes ''handleRoot'' [String_attr ''response.status'' ''success'']]
        in (json_Encode response (Header_Set ''Content-Type'' ''application/json'' w),
            ev @ ev'))"

definition handleHealth :: handler where
  "handleHealth r w = (Write (Bytes ''OK'') (WriteHeader 200 w), [])"

subsection \<open>Routing and the instrumentation around it\<close>

text \<open>
  \<open>otelhttp.NewHandler(h, operation)\<close> of the instrumentation library serves every
  request inside a server span named after the operation, which it puts into the
  request's context (no filter is configured). \<open>otelhttp.WithRouteTag(route, h)\<close>
  sets the \<open>http.route\<close> attribute on the span of the request's context, and serves.
\<close>

definition otelhttp_NewHandler :: "handler \<Rightarrow> string \<Rightarrow> handler" where
  "otelhttp_NewHandler h operation r w =
     with_span operation (h (r\<lparr>ctx_span := Some operation\<rparr>) w)"

definition otelhttp_WithRouteTag :: "string \<Rightarrow> handler \<Rightarrow> handler" where
  "otelhttp_WithRouteTag route h r w =
     (case h r w of
        (w', ev) \<Rightarrow>
          (w', (case ctx_span r of
                  None \<Rightarrow> []
                | Some span \<Rightarrow> [SetAttributes span [String_attr ''http.route'' route]]) @ ev))"

text \<open>
  \<open>newHTTPHandler\<close>: the mux holds the patterns \<open>/\<close> and \<open>/health\<close>, each wrapped by
  \<open>WithRouteTag\<close>; \<open>/health\<close> matches that path alone and \<open>/\<close> every other path. The
  whole mux is wrapped by \<open>otelhttp.NewHandler(mux, "/")\<close>.
\<close>

definition ServeMux :: "handler \<Rightarrow> handler \<Rightarrow> handler" where
  "ServeMux root health r w =
     (if Path r = ''/health'' then otelhttp_WithRouteTag ''/health'' health r w
      else otelhttp_WithRouteTag ''/'' root r w)"

definition newHTTPHandler_a :: "(string \<Rightarrow> exchange) \<Rightarrow> string \<Rightarrow> handler" where
  "newHTTPHandler_a http_get APP_B_URL =
     otelhttp_NewHandler (ServeMux (handleRoot_a http_get APP_B_URL) handleHealth) ''/''"

definition newHTTPHandler_b :: "(string \<Rightarrow> exchange) \<Rightarrow> string \<Rightarrow> handler" where
  "newHTTPHandler_b http_get APP_C_URL =
     otelhttp_NewHandler (ServeMux (handleRoot_b http_get APP_C_URL) handleHealth) ''/''"

definition newHTTPHandler_c :: handler where
  "newHTTPHandler_c = otelhttp_NewHandler (ServeMux handleRoot_c handleHealth) ''/''"

subsection \<open>The chain\<close>

text \<open>
  A node that answers: the exchange its caller sees is the status code and the body the
  node's handler wrote. A body that is one output of the JSON encoder is the text of
  the value encoded; any other body is classified by \<open>parse\<close>, the JSON grammar.
\<close>

definition status_sent :: "response \<Rightarrow> nat" where
  "status_sent w = (case wroteHeader w of None \<Rightarrow> 200 | Some code \<Rightarrow> code)"

definition answers :: "(chunk list \<Rightarrow> payload) \<Rightarrow> response \<Rightarrow> exchange" where
  "answers parse w =
     Received (status_sent w)
       (case out w of [Encoded v] \<Rightarrow> JSONText v | chunks \<Rightarrow> parse chunks)"

text \<open>An outbound call that comes to the same exchange whatever the URL.\<close>

definition always :: "exchange \<Rightarrow> string \<Rightarrow> exchange" where
  "always x url = x"

text \<open>The request that \<open>http.NewRequestWithContext(ctx, "GET", url+"/", nil)\<close> puts on the wire
  for a base URL without a path.\<close>

definition GET_root :: request where
  "GET_root = \<lparr>Method = ''GET'', Path = ''/'', ctx_span = None\<rparr>"

definition GET_health :: request where
  "GET_health = \<lparr>Method = ''GET'', Path = ''/health'', ctx_span = None\<rparr>"

text \<open>
  Node A served by node B served by node C, B and C answering: what A's handler does
  with request \<open>r\<close>.
\<close>

definition chain :: "(chunk list \<Rightarrow> payload) \<Rightarrow> string \<Rightarrow> string \<Rightarrow> request \<Rightarrow> response traced" where
  "chain parse APP_B_URL APP_C_URL r =
     (let c = answers parse (fst (newHTTPHandler_c GET_root ResponseWriter0));
          b = answers parse (fst (newHTTPHandler_b (always c) APP_C_URL GET_root ResponseWriter0))
      in newHTTPHandler_a (always b) APP_B_URL r ResponseWriter0)"

subsection \<open>Predicates on span events and on exchanges\<close>

fun span_of :: "event \<Rightarrow> string" where
  "span_of (Start s) = s"
| "span_of (SetAttributes s as) = s"
| "span_of (RecordError s e) = s"
| "span_of (End s) = s"

fun recording :: "event \<Rightarrow> bool" where
  "recording (SetAttributes s as) = True"
| "recording (RecordError s e) = True"
| "recording _ = False"

text \<open>
  The life of span \<open>s\<close> in a sequence of events: its events begin with its start, finish
  with its end, and between the two there are only attribute and error recordings, so
  that it is started once, ended once, and nothing is recorded on it after its end.
\<close>

definition span_lifecycle :: "string \<Rightarrow> event list \<Rightarrow> bool" where
  "span_lifecycle s evs =
     (case filter (\<lambda>e. span_of e = s) evs of
        [] \<Rightarrow> False
      | e # rest \<Rightarrow>
          e = Start s \<and> rest \<noteq> [] \<and> last rest = End s \<and> list_all recording (butlast rest))"

text \<open>
  The failure condition as the specification words it (request not created or not
  issued, body not read, body not valid JSON), and the one of the decoder's target type.
\<close>

fun valid_JSON :: "payload \<Rightarrow> bool" where
  "valid_JSON (JSONText v) = True"
| "valid_JSON (NotJSON e) = False"





section \<open>Example inputs\<close>

text \<open>
  A registry for the examples: exporter \<open>E1\<close> shuts down cleanly, exporter \<open>E2\<close> fails
  with \<open>x\<close>; the SDK state counts the calls.
\<close>

definition E1 :: "nat callback" where
  "E1 = Callback ''E1'' (\<lambda>c w. (None, Suc w))"

definition E2 :: "nat callback" where
  "E2 = Callback ''E2'' (\<lambda>c w. (Some (Err ''x''), Suc w))"

definition E3 :: "nat callback" where
  "E3 = Callback ''E3'' (\<lambda>c w. (None, Suc w))"

definition E4 :: "nat callback" where
  "E4 = Callback ''E4'' (\<lambda>c w. (Some (Err ''y''), Suc w))"

definition fresh :: "nat otel_state" where
  "fresh = \<lparr>shutdownFuncs = [], textMapPropagator = None, tracerProvider = None,
            meterProvider = None, loggerProvider = None, teardowns = [], calls = [],
            sdk = 0\<rparr>"

definition ex_registry :: "nat otel_state" where
  "ex_registry = fresh\<lparr>shutdownFuncs := [E1, E2]\<rparr>"

text \<open>Environments in which the metric exporter, or the log exporter, cannot be built.\<close>

definition env_metric_fails :: "nat sdk_env" where
  "env_metric_fails =
     \<lparr>otlptracegrpc_New = (\<lambda>endpoint. Inr E2),
      stdoutmetric_New = Inl (Err ''no metric exporter''),
      stdoutlog_New = Inr E3\<rparr>"

definition env_log_fails :: "nat sdk_env" where
  "env_log_fails =
     \<lparr>otlptracegrpc_New = (\<lambda>endpoint. Inr E2),
      stdoutmetric_New = Inr E1,
      stdoutlog_New = Inl (Err ''no log exporter'')\<rparr>"

text \<open>A registry whose first function fails: \<open>E2\<close>, then \<open>E1\<close>, then \<open>E4\<close>, which fails too.\<close>

definition failing_first :: "nat otel_state" where
  "failing_first = fresh\<lparr>shutdownFuncs := [E2, E1, E4]\<rparr>"

definition env_all_built :: "nat sdk_env" where
  "env_all_built =
     \<lparr>otlptracegrpc_New = (\<lambda>endpoint. Inr E2),
      stdoutmetric_New = Inr E1,
      stdoutlog_New = Inr E3\<rparr>"

text \<open>A JSON grammar that accepts nothing, for bodies that are not encoder output.\<close>

definition unparsed :: "chunk list \<Rightarrow> payload" where
  "unparsed chunks = NotJSON (Err ''invalid character'')"

text \<open>A body that is a JSON object holding a number too large for a \<open>float64\<close>.\<close>

definition huge_number_body :: payload where
  "huge_number_body = JSONText (JObject [(''n'', JNumber ''1e400'')])"

text \<open>An outbound call that finds nobody listening.\<close>

definition refused :: exchange where
  "refused = DoError (Err ''dial tcp 127.0.0.1:8081: connect: connection refused'')"

section \<open>Properties of the shutdown coordinator and the builder\<close>

lemma shutdown_clears: "shutdownFuncs (snd (shutdown c s)) = []"
  by (simp add: shutdown_def split: prod.splits)

lemma shutdown_empty:
  "shutdownFuncs s = [] \<Longrightarrow> shutdown c s = (None, s)"
  by (simp add: shutdown_def)

lemma handleErr_result:
  assumes "handleErr c e s = (err, s')"
  shows "shutdownFuncs s' = []" and "err \<noteq> None"
proof -
  obtain e1 s1 where sh: "shutdown c s = (e1, s1)"
    by (cases "shutdown c s")
  from sh assms have s': "s' = s1" and err: "err = errors_Join [Some e, e1]"
    by (simp_all add: handleErr_def)
  from shutdown_clears [of c s] sh s' show "shutdownFuncs s' = []"
    by simp
  from err show "err \<noteq> None"
    by (cases e1) (simp_all add: errors_Join_def List.map_filter_def)
qed

lemma error_leaves_Join2:
  "error_leaves (errors_Join [a, b]) = error_leaves a @ error_leaves b"
  by (cases a; cases b) (simp_all add: errors_Join_def error_leaves_def List.map_filter_def)

lemma errors_Join2_None:
  "errors_Join [a, b] = None \<longleftrightarrow> a = None \<and> b = None"
  by (cases a; cases b) (simp_all add: errors_Join_def List.map_filter_def)

lemma call_each_length: "length (fst (call_each c fns w)) = length fns"
proof (induction fns arbitrary: w)
  case Nil
  then show ?case by simp
next
  case (Cons fn fns)
  obtain e w1 where call: "cb_call fn c w = (e, w1)"
    by (cases "cb_call fn c w")
  obtain es w2 where rest: "call_each c fns w1 = (es, w2)"
    by (cases "call_each c fns w1")
  from Cons.IH [of w1] rest have "length es = length fns" by simp
  with call rest show ?case by simp
qed

text \<open>
  The result at position \<open>i\<close> is what the \<open>i\<close>-th function returned on the SDK state left
  by the functions before it.
\<close>

lemma call_each_nth:
  "i < length fns \<Longrightarrow>
     fst (call_each c fns w) ! i
       = fst (cb_call (fns ! i) c (snd (call_each c (take i fns) w)))"
proof (induction fns arbitrary: i w)
  case Nil
  then show ?case by simp
next
  case (Cons fn fns)
  obtain e w1 where call: "cb_call fn c w = (e, w1)"
    by (cases "cb_call fn c w")
  obtain es w2 where rest: "call_each c fns w1 = (es, w2)"
    by (cases "call_each c fns w1")
  show ?case
  proof (cases i)
    case 0
    with call rest show ?thesis by simp
  next
    case (Suc j)
    with Cons.prems have j: "j < length fns" by simp
    obtain es' w3 where pre: "call_each c (take j fns) w1 = (es', w3)"
      by (cases "call_each c (take j fns) w1")
    from Cons.IH [OF j, of w1] rest pre
    have "es ! j = fst (cb_call (fns ! j) c w3)" by simp
    with Suc call rest pre show ?thesis by simp
  qed
qed

text \<open>
  The loop, from any accumulator, against \<open>call_each\<close>: it extends the history by one
  entry per function of the list, in list order, leaves the SDK in the state the last
  call left, and extends the error by what the calls returned.
\<close>

lemma shutdown_range_call_each:
  "shutdown_range c fns (err, hist, w) = (err', hist', w') \<Longrightarrow>
     hist' = hist @ zip (map cb_name fns) (fst (call_each c fns w))
     \<and> w' = snd (call_each c fns w)
     \<and> error_leaves err' = error_leaves err @ concat (map error_leaves (fst (call_each c fns w)))
     \<and> (err' = None \<longleftrightarrow> err = None \<and> (\<forall>e \<in> set (fst (call_each c fns w)). e = None))"
proof (induction fns arbitrary: err hist w)
  case Nil
  then show ?case by simp
next
  case (Cons fn fns)
  obtain e w1 where call: "cb_call fn c w = (e, w1)"
    by (cases "cb_call fn c w")
  obtain es w2 where rest: "call_each c fns w1 = (es, w2)"
    by (cases "call_each c fns w1")
  from call Cons.prems have
    "shutdown_range c fns (errors_Join [err, e], hist @ [(cb_name fn, e)], w1) = (err', hist', w')"
    by simp
  from Cons.IH [OF this] rest have
    h: "hist' = (hist @ [(cb_name fn, e)]) @ zip (map cb_name fns) es" and
    w: "w' = w2" and
    l: "error_leaves err' = error_leaves (errors_Join [err, e]) @ concat (map error_leaves es)" and
    z: "err' = None \<longleftrightarrow> errors_Join [err, e] = None \<and> (\<forall>x \<in> set es. x = None)"
    by simp_all
  have all: "call_each c (fn # fns) w = (e # es, w2)"
    using call rest by simp
  show ?case
    unfolding all using h w l z
    by (auto simp: error_leaves_Join2 errors_Join2_None)
qed

lemma shutdown_call_each:
  assumes "shutdown c s = (err, s')"
  shows "teardowns s' = teardowns s
           @ zip (map cb_name (shutdownFuncs s)) (fst (call_each c (shutdownFuncs s) (sdk s)))"
    and "invocations_since s s'
           = zip (map cb_name (shutdownFuncs s)) (fst (call_each c (shutdownFuncs s) (sdk s)))"
    and "sdk s' = snd (call_each c (shutdownFuncs s) (sdk s))"
    and "error_leaves err
           = concat (map error_leaves (fst (call_each c (shutdownFuncs s) (sdk s))))"
    and "err = None \<longleftrightarrow> (\<forall>e \<in> set (fst (call_each c (shutdownFuncs s) (sdk s))). e = None)"
proof -
  obtain e h w where r: "shutdown_range c (shutdownFuncs s) (None, teardowns s, sdk s) = (e, h, w)"
    by (cases "shutdown_range c (shutdownFuncs s) (None, teardowns s, sdk s)")
  with assms have eq: "err = e" "teardowns s' = h" "sdk s' = w"
    by (auto simp: shutdown_def)
  from shutdown_range_call_each [OF r] eq
  show "teardowns s' = teardowns s
           @ zip (map cb_name (shutdownFuncs s)) (fst (call_each c (shutdownFuncs s) (sdk s)))"
    and "sdk s' = snd (call_each c (shutdownFuncs s) (sdk s))"
    and "error_leaves err
           = concat (map error_leaves (fst (call_each c (shutdownFuncs s) (sdk s))))"
    and "err = None \<longleftrightarrow> (\<forall>e \<in> set (fst (call_each c (shutdownFuncs s) (sdk s))). e = None)"
    by (simp_all add: error_leaves_def)
  then show "invocations_since s s'
           = zip (map cb_name (shutdownFuncs s)) (fst (call_each c (shutdownFuncs s) (sdk s)))"
    by (simp add: invocations_since_def)
qed

lemma shutdown_seq_empty:
  "shutdownFuncs s = [] \<Longrightarrow> shutdown_seq cs s = (replicate (length cs) None, s)"
  by (induction cs) (simp_all add: shutdown_empty)

lemmas setup_steps =
  called_def SetTextMapPropagator_def SetTracerProvider_def SetMeterProvider_def
  SetLoggerProvider_def append_shutdownFuncs_def newPropagator_def

lemma SetupOTelSDK_failed_clears:
  "snd (SetupOTelSDK c n ep env s0) \<noteq> None \<Longrightarrow>
     shutdownFuncs (fst (SetupOTelSDK c n ep env s0)) = []"
  by (auto simp: SetupOTelSDK_def Let_def split: sum.splits prod.splits
      dest: handleErr_result(1))

lemma setupOTelSDK_failed_clears:
  "snd (setupOTelSDK c env s0) \<noteq> None \<Longrightarrow> shutdownFuncs (fst (setupOTelSDK c env s0)) = []"
  by (auto simp: setupOTelSDK_def Let_def split: sum.splits prod.splits
      dest: handleErr_result(1))

lemma handleErr_spec:
  assumes "handleErr c e s = (err, s')"
  shows "error_leaves err
           = leaves e @ concat (map error_leaves (fst (call_each c (shutdownFuncs s) (sdk s))))"
    and "teardowns s' = teardowns s
           @ zip (map cb_name (shutdownFuncs s)) (fst (call_each c (shutdownFuncs s) (sdk s)))"
    and "sdk s' = snd (call_each c (shutdownFuncs s) (sdk s))"
    and "textMapPropagator s' = textMapPropagator s"
    and "calls s' = calls s"
proof -
  obtain e1 s1 where sh: "shutdown c s = (e1, s1)"
    by (cases "shutdown c s")
  from sh assms have s': "s' = s1" and err: "err = errors_Join [Some e, e1]"
    by (simp_all add: handleErr_def)
  from shutdown_call_each(4) [OF sh] err
  show "error_leaves err
           = leaves e @ concat (map error_leaves (fst (call_each c (shutdownFuncs s) (sdk s))))"
    by (simp add: error_leaves_Join2) (simp add: error_leaves_def)
  from shutdown_call_each(1,3) [OF sh] s'
  show "teardowns s' = teardowns s
           @ zip (map cb_name (shutdownFuncs s)) (fst (call_each c (shutdownFuncs s) (sdk s)))"
    and "sdk s' = snd (call_each c (shutdownFuncs s) (sdk s))"
    by simp_all
  from sh s' show "textMapPropagator s' = textMapPropagator s" and "calls s' = calls s"
    by (auto simp: shutdown_def split: prod.splits)
qed

lemma torn_down_handleErr:
  assumes "teardowns s = teardowns s0" and "sdk s = sdk s0" and "shutdownFuncs s = built"
  shows "torn_down c s0 (case handleErr c e s of (err, s') \<Rightarrow> (s', err)) e built"
proof -
  obtain err s' where h: "handleErr c e s = (err, s')"
    by (cases "handleErr c e s")
  from handleErr_spec(2) [OF h] assms
  have t: "teardowns s' = teardowns s0 @ zip (map cb_name built) (fst (call_each c built (sdk s0)))"
    by simp
  then have "map fst (invocations_since s0 s') = map cb_name built"
    by (simp add: invocations_since_def call_each_length)
  with t handleErr_spec(1,3) [OF h] handleErr_result [OF h] assms h
  show ?thesis by (simp add: torn_down_def)
qed

lemma handleErr_frame:
  "textMapPropagator (fst (case handleErr c e s of (err, s') \<Rightarrow> (s', err))) = textMapPropagator s"
  "calls (fst (case handleErr c e s of (err, s') \<Rightarrow> (s', err))) = calls s"
  by (cases "handleErr c e s"; simp add: handleErr_spec(4,5))+

text \<open>The examples, evaluated.\<close>

lemma ex_shutdown:
  "shutdown Background ex_registry =
     (Some (joinError [Err ''x'']),
      fresh\<lparr>teardowns := [(''E1'', None), (''E2'', Some (Err ''x''))], sdk := 2\<rparr>)"
  by (simp add: shutdown_def ex_registry_def fresh_def E1_def E2_def errors_Join_def
      List.map_filter_def)

lemma ex_failed_build:
  "SetupOTelSDK NotifyContext ''app-a'' [] env_metric_fails fresh =
     (fresh\<lparr>textMapPropagator := Some (Composite [TraceContext, Baggage]),
            tracerProvider := Some ''E2'',
            teardowns := [(''E2'', Some (Err ''x''))],
            calls := [Call_SetTextMapPropagator (Composite [TraceContext, Baggage]),
                      Call_newTracerProvider, Call_SetTracerProvider ''E2'',
                      Call_newMeterProvider],
            sdk := 1\<rparr>,
      Some (joinError [Err ''no metric exporter'', joinError [Err ''x'']]))"
  by (simp add: SetupOTelSDK_def Let_def setup_steps handleErr_def shutdown_def
      newTracerProvider_def newMeterProvider_def env_metric_fails_def fresh_def E2_def
      errors_Join_def List.map_filter_def)

lemma ex_failed_build_main:
  "setupOTelSDK NotifyContext env_metric_fails fresh =
     (fresh\<lparr>textMapPropagator := Some (Composite [TraceContext, Baggage]),
            tracerProvider := Some ''E2'',
            teardowns := [(''E2'', Some (Err ''x''))],
            calls := [Call_SetTextMapPropagator (Composite [TraceContext, Baggage]),
                      Call_newTracerProvider, Call_SetTracerProvider ''E2'',
                      Call_newMeterProvider],
            sdk := 1\<rparr>,
      Some (joinError [Err ''no metric exporter'', joinError [Err ''x'']]))"
  by (simp add: setupOTelSDK_def Let_def setup_steps handleErr_def shutdown_def
      newTracerProvider_main_def newMeterProvider_def env_metric_fails_def fresh_def E2_def
      errors_Join_def List.map_filter_def)

subsection \<open>Idempotent shutdown\<close>

text \<open>
  Claim C1. Once the aggregate shutdown function has run, whether the caller invoked it
  or a failed build did through \<open>handleErr\<close>, every later invocation, on whatever
  context, returns \<open>nil\<close> and leaves the whole state as it was: no teardown function is
  invoked again (the history of teardowns and the SDK state are unchanged). It holds
  for the closure of \<open>SetupOTelSDK\<close> and for that of \<open>setupOTelSDK\<close>.
\<close>

theorem shutdown_idempotent:
  "shutdown_seq cs (snd (shutdown c s)) = (replicate (length cs) None, snd (shutdown c s))
   \<and> (snd (SetupOTelSDK c n ep env s0) \<noteq> None \<longrightarrow>
        shutdown_seq cs (fst (SetupOTelSDK c n ep env s0))
          = (replicate (length cs) None, fst (SetupOTelSDK c n ep env s0)))
   \<and> (snd (setupOTelSDK c env s0) \<noteq> None \<longrightarrow>
        shutdown_seq cs (fst (setupOTelSDK c env s0))
          = (replicate (length cs) None, fst (setupOTelSDK c env s0)))"
  using shutdown_clears [of c s] SetupOTelSDK_failed_clears [of c n ep env s0]
    setupOTelSDK_failed_clears [of c env s0]
  by (simp add: shutdown_seq_empty)

theorem shutdown_idempotent_witness:
  "snd (SetupOTelSDK NotifyContext ''app-a'' [] env_metric_fails fresh) \<noteq> None
   \<and> shutdown_seq [Background, Background]
         (fst (SetupOTelSDK NotifyContext ''app-a'' [] env_metric_fails fresh))
       = ([None, None], fst (SetupOTelSDK NotifyContext ''app-a'' [] env_metric_fails fresh))
   \<and> snd (setupOTelSDK NotifyContext env_metric_fails fresh) \<noteq> None
   \<and> shutdown_seq [Background, Background]
         (fst (setupOTelSDK NotifyContext env_metric_fails fresh))
       = ([None, None], fst (setupOTelSDK NotifyContext env_metric_fails fresh))
   \<and> shutdown_seq [Background, Background] (snd (shutdown NotifyContext ex_registry))
       = ([None, None], snd (shutdown NotifyContext ex_registry))"
  using shutdown_idempotent [of "[Background, Background]" NotifyContext ex_registry
      "''app-a''" "[]" env_metric_fails fresh]
  by (simp add: ex_failed_build ex_failed_build_main)

subsection \<open>Error aggregation\<close>

lemma ex_failing_first:
  "shutdown Background failing_first =
     (Some (joinError [joinError [joinError [Err ''x'']], Err ''y'']),
      fresh\<lparr>teardowns := [(''E2'', Some (Err ''x'')), (''E1'', None), (''E4'', Some (Err ''y''))],
            sdk := 3\<rparr>)"
  by (simp add: shutdown_def failing_first_def fresh_def E1_def E2_def E4_def errors_Join_def
      List.map_filter_def)

text \<open>
  Claim C2. One invocation of the aggregate shutdown function calls every registered
  function exactly once, in registration order, whatever the earlier ones returned:
  the function at position \<open>i\<close> is applied to the SDK state left by the functions before
  it, the SDK ends in the state the last call left, and the history grows by one entry
  per registered function, in that order, holding what the call returned. The error
  returned holds exactly the errors those calls returned, in the same order (a call
  that returned \<open>nil\<close> contributes nothing), and it is \<open>nil\<close> exactly when every call
  returned \<open>nil\<close>.
\<close>

theorem shutdown_invokes_all:
  assumes "shutdown c s = (err, s')"
  shows "teardowns s' = teardowns s @ invocations_since s s'
           \<and> invocations_since s s'
               = zip (map cb_name (shutdownFuncs s)) (fst (call_each c (shutdownFuncs s) (sdk s)))
           \<and> length (fst (call_each c (shutdownFuncs s) (sdk s))) = length (shutdownFuncs s)
           \<and> (\<forall>i < length (shutdownFuncs s).
                 invocations_since s s' ! i
                   = (cb_name (shutdownFuncs s ! i),
                      fst (cb_call (shutdownFuncs s ! i) c
                             (snd (call_each c (take i (shutdownFuncs s)) (sdk s))))))
           \<and> sdk s' = snd (call_each c (shutdownFuncs s) (sdk s))
           \<and> map fst (invocations_since s s') = map cb_name (shutdownFuncs s)
           \<and> error_leaves err
               = concat (map error_leaves (fst (call_each c (shutdownFuncs s) (sdk s))))
           \<and> error_leaves err = concat (map (error_leaves \<circ> snd) (invocations_since s s'))
           \<and> (err = None \<longleftrightarrow> (\<forall>e \<in> set (fst (call_each c (shutdownFuncs s) (sdk s))). e = None))
           \<and> (err = None \<longleftrightarrow> (\<forall>r \<in> set (invocations_since s s'). snd r = None))"
proof -
  let ?fns = "shutdownFuncs s"
  let ?res = "fst (call_each c ?fns (sdk s))"
  note spec = shutdown_call_each [OF assms]
  have len: "length ?res = length ?fns"
    by (rule call_each_length)
  have inv: "invocations_since s s' = zip (map cb_name ?fns) ?res"
    by (rule spec(2))
  have snds: "map snd (invocations_since s s') = ?res"
    using len by (simp add: inv)
  have nth: "\<forall>i < length ?fns.
      invocations_since s s' ! i
        = (cb_name (?fns ! i), fst (cb_call (?fns ! i) c (snd (call_each c (take i ?fns) (sdk s)))))"
    using len by (simp add: inv call_each_nth)
  have leaves': "error_leaves err = concat (map (error_leaves \<circ> snd) (invocations_since s s'))"
    using spec(4) snds by (metis map_map)
  have none': "err = None \<longleftrightarrow> (\<forall>r \<in> set (invocations_since s s'). snd r = None)"
  proof -
    have "(\<forall>r \<in> set (invocations_since s s'). snd r = None)
            \<longleftrightarrow> (\<forall>e \<in> set (map snd (invocations_since s s')). e = None)"
      by simp
    with spec(5) snds show ?thesis by simp
  qed
  have names: "map fst (invocations_since s s') = map cb_name ?fns"
    using len by (simp add: inv)
  from spec(1) inv have "teardowns s' = teardowns s @ invocations_since s s'"
    by simp
  with inv len nth spec(3) names spec(4) leaves' spec(5) none' show ?thesis
    by blast
qed

theorem shutdown_invokes_all_witness:
  "shutdown Background failing_first =
     (Some (joinError [joinError [joinError [Err ''x'']], Err ''y'']),
      fresh\<lparr>teardowns := [(''E2'', Some (Err ''x'')), (''E1'', None), (''E4'', Some (Err ''y''))],
            sdk := 3\<rparr>)
   \<and> invocations_since failing_first
        (fresh\<lparr>teardowns := [(''E2'', Some (Err ''x'')), (''E1'', None), (''E4'', Some (Err ''y''))],
               sdk := 3\<rparr>)
       = [(''E2'', Some (Err ''x'')), (''E1'', None), (''E4'', Some (Err ''y''))]
   \<and> call_each Background [E2, E1, E4] 0 = ([Some (Err ''x''), None, Some (Err ''y'')], 3)
   \<and> error_leaves (Some (joinError [joinError [joinError [Err ''x'']], Err ''y'']))
       = [Err ''x'', Err ''y'']"
proof -
  note run = ex_failing_first
  have each: "call_each Background [E2, E1, E4] 0 = ([Some (Err ''x''), None, Some (Err ''y'')], 3)"
    by (simp add: E1_def E2_def E4_def)
  from shutdown_invokes_all [OF run] run each show ?thesis
    by (simp add: failing_first_def fresh_def invocations_since_def error_leaves_def)
qed

subsection \<open>No leak on a failed build\<close>

lemma ex_log_fails:
  "SetupOTelSDK NotifyContext ''app-a'' [] env_log_fails fresh =
     (fresh\<lparr>textMapPropagator := Some (Composite [TraceContext, Baggage]),
            tracerProvider := Some ''E2'', meterProvider := Some ''E1'',
            teardowns := [(''E2'', Some (Err ''x'')), (''E1'', None)],
            calls := [Call_SetTextMapPropagator (Composite [TraceContext, Baggage]),
                      Call_newTracerProvider, Call_SetTracerProvider ''E2'',
                      Call_newMeterProvider, Call_SetMeterProvider ''E1'',
                      Call_newLoggerProvider],
            sdk := 2\<rparr>,
      Some (joinError [Err ''no log exporter'', joinError [joinError [Err ''x'']]]))"
  by (simp add: SetupOTelSDK_def Let_def setup_steps handleErr_def shutdown_def
      newTracerProvider_def newMeterProvider_def newLoggerProvider_def env_log_fails_def
      fresh_def E1_def E2_def errors_Join_def List.map_filter_def)

lemma ex_log_fails_main:
  "setupOTelSDK NotifyContext env_log_fails fresh =
     (fresh\<lparr>textMapPropagator := Some (Composite [TraceContext, Baggage]),
            tracerProvider := Some ''E2'', meterProvider := Some ''E1'',
            teardowns := [(''E2'', Some (Err ''x'')), (''E1'', None)],
            calls := [Call_SetTextMapPropagator (Composite [TraceContext, Baggage]),
                      Call_newTracerProvider, Call_SetTracerProvider ''E2'',
                      Call_newMeterProvider, Call_SetMeterProvider ''E1'',
                      Call_newLoggerProvider],
            sdk := 2\<rparr>,
      Some (joinError [Err ''no log exporter'', joinError [joinError [Err ''x'']]]))"
  by (simp add: setupOTelSDK_def Let_def setup_steps handleErr_def shutdown_def
      newTracerProvider_main_def newMeterProvider_def newLoggerProvider_def env_log_fails_def
      fresh_def E1_def E2_def errors_Join_def List.map_filter_def)

text \<open>
  Claim C3. Whichever of the three constructors fails, the build returns a non-nil
  error, made of the construction error followed by the teardown errors, and by then
  the teardown function of every provider built before the failure has been called on
  the build's context, once each and in build order, each on the SDK state its
  predecessor left; the SDK is in the state the last of these calls left, the history
  holds these calls and what they returned, and no teardown function is left
  registered. It holds for \<open>SetupOTelSDK\<close> and for \<open>setupOTelSDK\<close>.
\<close>

theorem construction_failure_tears_down:
  "(newTracerProvider env n ep = Inl e \<longrightarrow>
      torn_down c s0 (SetupOTelSDK c n ep env s0) e [])
   \<and> (newTracerProvider env n ep = Inr tp \<and> newMeterProvider env = Inl e \<longrightarrow>
      torn_down c s0 (SetupOTelSDK c n ep env s0) e [tp])
   \<and> (newTracerProvider env n ep = Inr tp \<and> newMeterProvider env = Inr mp
        \<and> newLoggerProvider env = Inl e \<longrightarrow>
      torn_down c s0 (SetupOTelSDK c n ep env s0) e [tp, mp])
   \<and> (newTracerProvider_main env = Inl e \<longrightarrow>
      torn_down c s0 (setupOTelSDK c env s0) e [])
   \<and> (newTracerProvider_main env = Inr tp \<and> newMeterProvider env = Inl e \<longrightarrow>
      torn_down c s0 (setupOTelSDK c env s0) e [tp])
   \<and> (newTracerProvider_main env = Inr tp \<and> newMeterProvider env = Inr mp
        \<and> newLoggerProvider env = Inl e \<longrightarrow>
      torn_down c s0 (setupOTelSDK c env s0) e [tp, mp])"
  by (simp add: SetupOTelSDK_def setupOTelSDK_def Let_def torn_down_handleErr setup_steps)

theorem construction_failure_tears_down_witness:
  "newTracerProvider env_log_fails ''app-a'' [] = Inr E2
   \<and> newTracerProvider_main env_log_fails = Inr E2
   \<and> newMeterProvider env_log_fails = Inr E1
   \<and> newLoggerProvider env_log_fails = Inl (Err ''no log exporter'')
   \<and> cb_call E2 NotifyContext 0 = (Some (Err ''x''), 1)
   \<and> cb_call E1 NotifyContext 1 = (None, 2)
   \<and> sdk (fst (SetupOTelSDK NotifyContext ''app-a'' [] env_log_fails fresh)) = 2
   \<and> teardowns (fst (SetupOTelSDK NotifyContext ''app-a'' [] env_log_fails fresh))
       = [(''E2'', Some (Err ''x'')), (''E1'', None)]
   \<and> error_leaves (snd (SetupOTelSDK NotifyContext ''app-a'' [] env_log_fails fresh))
       = [Err ''no log exporter'', Err ''x'']
   \<and> shutdownFuncs (fst (SetupOTelSDK NotifyContext ''app-a'' [] env_log_fails fresh)) = []
   \<and> sdk (fst (setupOTelSDK NotifyContext env_log_fails fresh)) = 2
   \<and> teardowns (fst (setupOTelSDK NotifyContext env_log_fails fresh))
       = [(''E2'', Some (Err ''x'')), (''E1'', None)]
   \<and> error_leaves (snd (setupOTelSDK NotifyContext env_log_fails fresh))
       = [Err ''no log exporter'', Err ''x'']
   \<and> shutdownFuncs (fst (setupOTelSDK NotifyContext env_log_fails fresh)) = []"
proof -
  have a: "newTracerProvider env_log_fails ''app-a'' [] = Inr E2"
    by (simp add: newTracerProvider_def env_log_fails_def)
  have a': "newTracerProvider_main env_log_fails = Inr E2"
    by (simp add: newTracerProvider_main_def env_log_fails_def)
  have b: "newMeterProvider env_log_fails = Inr E1"
    by (simp add: newMeterProvider_def env_log_fails_def)
  have c: "newLoggerProvider env_log_fails = Inl (Err ''no log exporter'')"
    by (simp add: newLoggerProvider_def env_log_fails_def)
  have each: "call_each NotifyContext [E2, E1] (sdk fresh) = ([Some (Err ''x''), None], 2)"
    by (simp add: E1_def E2_def fresh_def)
  have calls: "cb_call E2 NotifyContext 0 = (Some (Err ''x''), 1)"
    "cb_call E1 NotifyContext 1 = (None, 2)"
    by (simp_all add: E1_def E2_def)
  have t0: "teardowns fresh = []"
    by (simp add: fresh_def)
  have names: "cb_name E2 = ''E2''" "cb_name E1 = ''E1''"
    by (simp_all add: E1_def E2_def)
  from construction_failure_tears_down [of env_log_fails "''app-a''" "[]"
      "Err ''no log exporter''" NotifyContext fresh E2 E1] a a' b c
  have "torn_down NotifyContext fresh
          (SetupOTelSDK NotifyContext ''app-a'' [] env_log_fails fresh)
          (Err ''no log exporter'') [E2, E1]"
    and "torn_down NotifyContext fresh (setupOTelSDK NotifyContext env_log_fails fresh)
          (Err ''no log exporter'') [E2, E1]"
    by simp_all
  then have "snd (SetupOTelSDK NotifyContext ''app-a'' [] env_log_fails fresh) \<noteq> None
      \<and> error_leaves (snd (SetupOTelSDK NotifyContext ''app-a'' [] env_log_fails fresh))
          = [Err ''no log exporter'', Err ''x'']
      \<and> sdk (fst (SetupOTelSDK NotifyContext ''app-a'' [] env_log_fails fresh)) = 2
      \<and> teardowns (fst (SetupOTelSDK NotifyContext ''app-a'' [] env_log_fails fresh))
          = [(''E2'', Some (Err ''x'')), (''E1'', None)]
      \<and> shutdownFuncs (fst (SetupOTelSDK NotifyContext ''app-a'' [] env_log_fails fresh)) = []"
    and "snd (setupOTelSDK NotifyContext env_log_fails fresh) \<noteq> None
      \<and> error_leaves (snd (setupOTelSDK NotifyContext env_log_fails fresh))
          = [Err ''no log exporter'', Err ''x'']
      \<and> sdk (fst (setupOTelSDK NotifyContext env_log_fails fresh)) = 2
      \<and> teardowns (fst (setupOTelSDK NotifyContext env_log_fails fresh))
          = [(''E2'', Some (Err ''x'')), (''E1'', None)]
      \<and> shutdownFuncs (fst (setupOTelSDK NotifyContext env_log_fails fresh)) = []"
    unfolding torn_down_def each
    by (simp_all add: t0 names error_leaves_def)
  with a a' b c calls show ?thesis
    by simp
qed

subsection \<open>The propagator stays installed\<close>

text \<open>
  Claim C10. In every run of the build, the first thing it does is install the
  composite of the trace-context and baggage propagators as the process-wide text-map
  propagator; the first constructor runs after that. The registration is still there
  when the build returns, with or without a construction error: \<open>shutdown\<close> does not
  touch it. It holds for \<open>SetupOTelSDK\<close> and for \<open>setupOTelSDK\<close>.
\<close>

theorem propagator_installed_first:
  "textMapPropagator (fst (SetupOTelSDK c n ep env s0)) = Some (Composite [TraceContext, Baggage])
   \<and> (\<exists>rest. calls (fst (SetupOTelSDK c n ep env s0))
         = calls s0 @ Call_SetTextMapPropagator (Composite [TraceContext, Baggage])
             # Call_newTracerProvider # rest)
   \<and> textMapPropagator (fst (setupOTelSDK c env s0)) = Some (Composite [TraceContext, Baggage])
   \<and> (\<exists>rest. calls (fst (setupOTelSDK c env s0))
         = calls s0 @ Call_SetTextMapPropagator (Composite [TraceContext, Baggage])
             # Call_newTracerProvider # rest)"
  by (simp add: SetupOTelSDK_def setupOTelSDK_def Let_def handleErr_frame setup_steps
      split: sum.splits)

section \<open>Properties of the lifecycle controller\<close>

lemma ex_build:
  "SetupOTelSDK NotifyContext ''app-a'' ''localhost:4317'' env_all_built fresh =
     (fresh\<lparr>shutdownFuncs := [E2, E1, E3],
            textMapPropagator := Some (Composite [TraceContext, Baggage]),
            tracerProvider := Some ''E2'', meterProvider := Some ''E1'',
            loggerProvider := Some ''E3'',
            calls := [Call_SetTextMapPropagator (Composite [TraceContext, Baggage]),
                      Call_newTracerProvider, Call_SetTracerProvider ''E2'',
                      Call_newMeterProvider, Call_SetMeterProvider ''E1'',
                      Call_newLoggerProvider, Call_SetLoggerProvider ''E3'']\<rparr>,
      None)"
  by (simp add: SetupOTelSDK_def Let_def setup_steps newTracerProvider_def
      newMeterProvider_def newLoggerProvider_def env_all_built_def fresh_def E1_def E2_def E3_def)

lemma ex_build_main:
  "setupOTelSDK NotifyContext env_all_built fresh =
     (fresh\<lparr>shutdownFuncs := [E2, E1, E3],
            textMapPropagator := Some (Composite [TraceContext, Baggage]),
            tracerProvider := Some ''E2'', meterProvider := Some ''E1'',
            loggerProvider := Some ''E3'',
            calls := [Call_SetTextMapPropagator (Composite [TraceContext, Baggage]),
                      Call_newTracerProvider, Call_SetTracerProvider ''E2'',
                      Call_newMeterProvider, Call_SetMeterProvider ''E1'',
                      Call_newLoggerProvider, Call_SetLoggerProvider ''E3'']\<rparr>,
      None)"
  by (simp add: setupOTelSDK_def Let_def setup_steps newTracerProvider_main_def
      newMeterProvider_def newLoggerProvider_def env_all_built_def fresh_def E1_def E2_def E3_def)

lemma ex_teardown:
  "shutdown Background (fresh\<lparr>shutdownFuncs := [E2, E1, E3],
            textMapPropagator := Some (Composite [TraceContext, Baggage]),
            tracerProvider := Some ''E2'', meterProvider := Some ''E1'',
            loggerProvider := Some ''E3'',
            calls := [Call_SetTextMapPropagator (Composite [TraceContext, Baggage]),
                      Call_newTracerProvider, Call_SetTracerProvider ''E2'',
                      Call_newMeterProvider, Call_SetMeterProvider ''E1'',
                      Call_newLoggerProvider, Call_SetLoggerProvider ''E3'']\<rparr>) =
    (Some (joinError [joinError [joinError [Err ''x'']]]),
     fresh\<lparr>textMapPropagator := Some (Composite [TraceContext, Baggage]),
            tracerProvider := Some ''E2'', meterProvider := Some ''E1'',
            loggerProvider := Some ''E3'',
            teardowns := [(''E2'', Some (Err ''x'')), (''E1'', None), (''E3'', None)],
            calls := [Call_SetTextMapPropagator (Composite [TraceContext, Baggage]),
                      Call_newTracerProvider, Call_SetTracerProvider ''E2'',
                      Call_newMeterProvider, Call_SetMeterProvider ''E1'',
                      Call_newLoggerProvider, Call_SetLoggerProvider ''E3''],
            sdk := 3\<rparr>)"
  by (simp add: shutdown_def fresh_def E1_def E2_def E3_def errors_Join_def List.map_filter_def)

text \<open>
  Claim C4. The claim: when \<open>run\<close> has reached the listening state and stops, the error
  it returns joins the listener or drain error with the teardown error of the deferred
  shutdown. The code: the pipeline is built from providers of which the first fails to
  shut down with \<open>x\<close>, the process is interrupted and the drain succeeds. The deferred
  function does compute the joined error, in the local variable \<open>err\<close>; the value
  returned is \<open>nil\<close>. The same holds for \<open>run\<close> of \<open>src/main.go\<close>.
\<close>

theorem run_drops_teardown_error:
  "returned (run ''app-a'' [] env_all_built (Interrupted None) fresh) = None
   \<and> err_var (run ''app-a'' [] env_all_built (Interrupted None) fresh)
       = Some (joinError [joinError [joinError [joinError [Err ''x'']]]])
   \<and> teardowns (pipeline (run ''app-a'' [] env_all_built (Interrupted None) fresh))
       = [(''E2'', Some (Err ''x'')), (''E1'', None), (''E3'', None)]
   \<and> returned (run_main env_all_built (Interrupted None) fresh) = None
   \<and> err_var (run_main env_all_built (Interrupted None) fresh)
       = Some (joinError [joinError [joinError [joinError [Err ''x'']]]])"
  by (simp add: run_def run_main_def ex_build ex_build_main ex_teardown errors_Join_def
      List.map_filter_def)

text \<open>
  In general: once the build has succeeded, the value returned is the listener's error
  or the result of the drain, whatever the teardowns return.
\<close>

lemma run_returns_serve_error:
  "snd (SetupOTelSDK NotifyContext n (if ep = [] then ''localhost:4317'' else ep) env s0) = None \<Longrightarrow>
     returned (run n ep env outcome s0)
       = (case outcome of ListenerFailed e \<Rightarrow> Some e | Interrupted d \<Rightarrow> d)"
  by (auto simp: run_def Let_def split: prod.splits)


section \<open>Properties of the service nodes\<close>

lemmas writer_defs =
  ResponseWriter0_def Header_Del_def Header_Set_def Header_Get_def WriteHeader_def Write_def
  http_Error_def json_Encode_def

lemmas routing_defs =
  otelhttp_NewHandler_def otelhttp_WithRouteTag_def ServeMux_def with_span_def

lemma callAppB_cases:
  "callAppB http_get url =
     (case http_get (url @ ''/'') of
        Received code body \<Rightarrow>
          (case json_Unmarshal body of
             Inl e \<Rightarrow> (Inl e, [Start ''callAppB'',
                               SetAttributes ''callAppB'' [String_attr ''app.b.url'' url],
                               End ''callAppB''])
           | Inr v \<Rightarrow> (Inr v, [Start ''callAppB'',
                               SetAttributes ''callAppB'' [String_attr ''app.b.url'' url],
                               SetAttributes ''callAppB'' [Int_attr ''http.status_code'' (int code)],
                               End ''callAppB'']))
      | NewRequestError e \<Rightarrow> (Inl e, [Start ''callAppB'',
                               SetAttributes ''callAppB'' [String_attr ''app.b.url'' url],
                               End ''callAppB''])
      | DoError e \<Rightarrow> (Inl e, [Start ''callAppB'',
                               SetAttributes ''callAppB'' [String_attr ''app.b.url'' url],
                               End ''callAppB''])
      | ReadAllError code e \<Rightarrow> (Inl e, [Start ''callAppB'',
                               SetAttributes ''callAppB'' [String_attr ''app.b.url'' url],
                               End ''callAppB'']))"
  by (simp add: callAppB_def with_span_def split: exchange.splits sum.splits)

lemma callAppC_cases:
  "callAppC http_get url =
     (case http_get (url @ ''/'') of
        Received code body \<Rightarrow>
          (case json_Unmarshal body of
             Inl e \<Rightarrow> (Inl e, [Start ''callAppC'',
                               SetAttributes ''callAppC'' [String_attr ''app.c.url'' url],
                               End ''callAppC''])
           | Inr v \<Rightarrow> (Inr v, [Start ''callAppC'',
                               SetAttributes ''callAppC'' [String_attr ''app.c.url'' url],
                               SetAttributes ''callAppC'' [Int_attr ''http.status_code'' (int code)],
                               End ''callAppC'']))
      | NewRequestError e \<Rightarrow> (Inl e, [Start ''callAppC'',
                               SetAttributes ''callAppC'' [String_attr ''app.c.url'' url],
                               End ''callAppC''])
      | DoError e \<Rightarrow> (Inl e, [Start ''callAppC'',
                               SetAttributes ''callAppC'' [String_attr ''app.c.url'' url],
                               End ''callAppC''])
      | ReadAllError code e \<Rightarrow> (Inl e, [Start ''callAppC'',
                               SetAttributes ''callAppC'' [String_attr ''app.c.url'' url],
                               End ''callAppC'']))"
  by (simp add: callAppC_def with_span_def split: exchange.splits sum.splits)








subsection \<open>When an outbound call fails\<close>

text \<open>
  An object with a number that does not fit a \<open>float64\<close> is valid JSON and does not
  decode; the largest finite \<open>float64\<close> does.
\<close>

lemma huge_number_body_fails:
  "valid_JSON huge_number_body
   \<and> json_Unmarshal huge_number_body
       = Inl (Err ''json: cannot unmarshal number 1e400 into Go value of type float64'')
   \<and> fst (callAppB (always (Received 200 huge_number_body)) ''http://localhost:8081'')
       = Inl (Err ''json: cannot unmarshal number 1e400 into Go value of type float64'')"
  by (simp add: huge_number_body_def callAppB_cases always_def maxNestingDepth_def
      convertNumber_def within_float64_def number_value_def exponent_value_def digit_val_def)

lemma largest_float64_decodes:
  "json_Unmarshal (JSONText (JObject [(''n'', JNumber ''1.7976931348623157e308'')]))
     = Inr (JObject [(''n'', JNumber ''1.7976931348623157e308'')])"
  by (simp add: maxNestingDepth_def convertNumber_def within_float64_def number_value_def
      exponent_value_def digit_val_def)



lemma handleRoot_a_failure:
  assumes "fst (callAppB http_get (if APP_B_URL = [] then ''http://localhost:8081'' else APP_B_URL)) = Inl e"
  shows "handleRoot_a http_get APP_B_URL r ResponseWriter0 =
     (\<lparr>header = [(''Content-Type'', ''text/plain; charset=utf-8''),
                 (''X-Content-Type-Options'', ''nosniff'')],
       wroteHeader = Some 500, out = [Bytes (Error e @ [CHR 0x0A])]\<rparr>,
      [Start ''handleRoot'',
       SetAttributes ''handleRoot''
         [String_attr ''http.method'' (Method r), String_attr ''http.path'' (Path r)]]
      @ snd (callAppB http_get (if APP_B_URL = [] then ''http://localhost:8081'' else APP_B_URL))
      @ [RecordError ''handleRoot'' e, End ''handleRoot''])"
  using assms
  by (cases "callAppB http_get (if APP_B_URL = [] then ''http://localhost:8081'' else APP_B_URL)")
     (simp add: handleRoot_a_def with_span_def writer_defs Let_def)

lemma handleRoot_b_failure:
  assumes "fst (callAppC http_get (if APP_C_URL = [] then ''http://localhost:8082'' else APP_C_URL)) = Inl e"
  shows "handleRoot_b http_get APP_C_URL r ResponseWriter0 =
     (\<lparr>header = [(''Content-Type'', ''text/plain; charset=utf-8''),
                 (''X-Content-Type-Options'', ''nosniff'')],
       wroteHeader = Some 500, out = [Bytes (Error e @ [CHR 0x0A])]\<rparr>,
      [Start ''handleRoot'',
       SetAttributes ''handleRoot''
         [String_attr ''http.method'' (Method r), String_attr ''http.path'' (Path r)]]
      @ snd (callAppC http_get (if APP_C_URL = [] then ''http://localhost:8082'' else APP_C_URL))
      @ [RecordError ''handleRoot'' e, End ''handleRoot''])"
  using assms
  by (cases "callAppC http_get (if APP_C_URL = [] then ''http://localhost:8082'' else APP_C_URL)")
     (simp add: handleRoot_b_def with_span_def writer_defs Let_def)

lemma handleRoot_a_success:
  assumes "fst (callAppB http_get (if APP_B_URL = [] then ''http://localhost:8081'' else APP_B_URL)) = Inr v"
  shows "handleRoot_a http_get APP_B_URL r ResponseWriter0 =
     (\<lparr>header = [(''Content-Type'', ''application/json'')],
       wroteHeader = Some 200,
       out = [Encoded (JObject [(''service'', JString ''app-a''),
                                (''message'', JString ''Chamou App B com sucesso''),
                                (''result'', v)])]\<rparr>,
      [Start ''handleRoot'',
       SetAttributes ''handleRoot''
         [String_attr ''http.method'' (Method r), String_attr ''http.path'' (Path r)]]
      @ snd (callAppB http_get (if APP_B_URL = [] then ''http://localhost:8081'' else APP_B_URL))
      @ [End ''handleRoot''])"
  using assms
  by (cases "callAppB http_get (if APP_B_URL = [] then ''http://localhost:8081'' else APP_B_URL)")
     (simp add: handleRoot_a_def with_span_def writer_defs Let_def)

lemma handleRoot_b_success:
  assumes "fst (callAppC http_get (if APP_C_URL = [] then ''http://localhost:8082'' else APP_C_URL)) = Inr v"
  shows "handleRoot_b http_get APP_C_URL r ResponseWriter0 =
     (\<lparr>header = [(''Content-Type'', ''application/json'')],
       wroteHeader = Some 200,
       out = [Encoded (JObject [(''service'', JString ''app-b''),
                                (''message'', JString ''Chamou App C com sucesso''),
                                (''result'', v)])]\<rparr>,
      [Start ''handleRoot'',
       SetAttributes ''handleRoot''
         [String_attr ''http.method'' (Method r), String_attr ''http.path'' (Path r)]]
      @ snd (callAppC http_get (if APP_C_URL = [] then ''http://localhost:8082'' else APP_C_URL))
      @ [End ''handleRoot''])"
  using assms
  by (cases "callAppC http_get (if APP_C_URL = [] then ''http://localhost:8082'' else APP_C_URL)")
     (simp add: handleRoot_b_def with_span_def writer_defs Let_def)

lemma handleRoot_c_eval:
  "handleRoot_c r ResponseWriter0 =
     (\<lparr>header = [(''Content-Type'', ''application/json'')],
       wroteHeader = Some 200,
       out = [Encoded (JObject [(''service'', JString ''app-c''),
                                (''message'', JString ''Resposta final do App C''),
                                (''status'', JString ''success'')])]\<rparr>,
      [Start ''handleRoot'',
       SetAttributes ''handleRoot''
         [String_attr ''http.method'' (Method r), String_attr ''http.path'' (Path r)],
       SetAttributes ''handleRoot'' [String_attr ''response.status'' ''success''],
       End ''handleRoot''])"
  by (simp add: handleRoot_c_def with_span_def writer_defs Let_def)


subsection \<open>The error branch of the root handler\<close>

text \<open>
  Claim C7. When the outbound call of a non-terminal node fails with error \<open>e\<close>, the
  root handler records \<open>e\<close> on its own span \<open>handleRoot\<close>, after the events of the
  outbound call and before the span's end, and answers status 500 with content type
  \<open>text/plain\<close>; the body is one write, the string of \<open>e\<close> with the newline that
  \<open>http.Error\<close> puts after it, and no JSON body is written.
\<close>

theorem failed_call_answers_500:
  "(fst (callAppB http_get (if APP_B_URL = [] then ''http://localhost:8081'' else APP_B_URL)) = Inl e \<longrightarrow>
      wroteHeader (fst (handleRoot_a http_get APP_B_URL r ResponseWriter0)) = Some 500
      \<and> Header_Get (fst (handleRoot_a http_get APP_B_URL r ResponseWriter0)) ''Content-Type''
          = Some ''text/plain; charset=utf-8''
      \<and> out (fst (handleRoot_a http_get APP_B_URL r ResponseWriter0)) = [Bytes (Error e @ [CHR 0x0A])]
      \<and> snd (handleRoot_a http_get APP_B_URL r ResponseWriter0) =
          [Start ''handleRoot'',
           SetAttributes ''handleRoot''
             [String_attr ''http.method'' (Method r), String_attr ''http.path'' (Path r)]]
          @ snd (callAppB http_get (if APP_B_URL = [] then ''http://localhost:8081'' else APP_B_URL))
          @ [RecordError ''handleRoot'' e, End ''handleRoot''])
   \<and> (fst (callAppC http_get (if APP_C_URL = [] then ''http://localhost:8082'' else APP_C_URL)) = Inl e \<longrightarrow>
      wroteHeader (fst (handleRoot_b http_get APP_C_URL r ResponseWriter0)) = Some 500
      \<and> Header_Get (fst (handleRoot_b http_get APP_C_URL r ResponseWriter0)) ''Content-Type''
          = Some ''text/plain; charset=utf-8''
      \<and> out (fst (handleRoot_b http_get APP_C_URL r ResponseWriter0)) = [Bytes (Error e @ [CHR 0x0A])]
      \<and> snd (handleRoot_b http_get APP_C_URL r ResponseWriter0) =
          [Start ''handleRoot'',
           SetAttributes ''handleRoot''
             [String_attr ''http.method'' (Method r), String_attr ''http.path'' (Path r)]]
          @ snd (callAppC http_get (if APP_C_URL = [] then ''http://localhost:8082'' else APP_C_URL))
          @ [RecordError ''handleRoot'' e, End ''handleRoot''])"
  by (simp add: handleRoot_a_failure handleRoot_b_failure Header_Get_def)

theorem failed_call_answers_500_witness:
  "fst (callAppB (always refused) (if [] = [] then ''http://localhost:8081'' else []))
     = Inl (Err ''dial tcp 127.0.0.1:8081: connect: connection refused'')
   \<and> wroteHeader (fst (handleRoot_a (always refused) [] GET_root ResponseWriter0)) = Some 500
   \<and> out (fst (handleRoot_a (always refused) [] GET_root ResponseWriter0))
       = [Bytes (''dial tcp 127.0.0.1:8081: connect: connection refused'' @ [CHR 0x0A])]
   \<and> fst (callAppC (always refused) (if [] = [] then ''http://localhost:8082'' else []))
     = Inl (Err ''dial tcp 127.0.0.1:8081: connect: connection refused'')
   \<and> wroteHeader (fst (handleRoot_b (always refused) [] GET_root ResponseWriter0)) = Some 500"
proof -
  have a: "fst (callAppB (always refused) (if [] = [] then ''http://localhost:8081'' else []))
     = Inl (Err ''dial tcp 127.0.0.1:8081: connect: connection refused'')"
    by (simp add: callAppB_cases always_def refused_def)
  have b: "fst (callAppC (always refused) (if [] = [] then ''http://localhost:8082'' else []))
     = Inl (Err ''dial tcp 127.0.0.1:8081: connect: connection refused'')"
    by (simp add: callAppC_cases always_def refused_def)
  from failed_call_answers_500 [of "always refused" "[]"
      "Err ''dial tcp 127.0.0.1:8081: connect: connection refused''" GET_root "[]"] a b
  show ?thesis by simp
qed


lemma handleRoot_a_cases:
  "snd (handleRoot_a http_get APP_B_URL r w) =
     [Start ''handleRoot'',
      SetAttributes ''handleRoot''
        [String_attr ''http.method'' (Method r), String_attr ''http.path'' (Path r)]]
     @ snd (callAppB http_get (if APP_B_URL = [] then ''http://localhost:8081'' else APP_B_URL))
     @ (case fst (callAppB http_get (if APP_B_URL = [] then ''http://localhost:8081'' else APP_B_URL)) of
          Inl e \<Rightarrow> [RecordError ''handleRoot'' e] | Inr v \<Rightarrow> [])
     @ [End ''handleRoot'']"
  by (cases "callAppB http_get (if APP_B_URL = [] then ''http://localhost:8081'' else APP_B_URL)")
     (simp add: handleRoot_a_def with_span_def Let_def split: sum.splits)

lemma handleRoot_b_cases:
  "snd (handleRoot_b http_get APP_C_URL r w) =
     [Start ''handleRoot'',
      SetAttributes ''handleRoot''
        [String_attr ''http.method'' (Method r), String_attr ''http.path'' (Path r)]]
     @ snd (callAppC http_get (if APP_C_URL = [] then ''http://localhost:8082'' else APP_C_URL))
     @ (case fst (callAppC http_get (if APP_C_URL = [] then ''http://localhost:8082'' else APP_C_URL)) of
          Inl e \<Rightarrow> [RecordError ''handleRoot'' e] | Inr v \<Rightarrow> [])
     @ [End ''handleRoot'']"
  by (cases "callAppC http_get (if APP_C_URL = [] then ''http://localhost:8082'' else APP_C_URL)")
     (simp add: handleRoot_b_def with_span_def Let_def split: sum.splits)

lemma handleRoot_c_events:
  "snd (handleRoot_c r w) =
      [Start ''handleRoot'',
       SetAttributes ''handleRoot''
         [String_attr ''http.method'' (Method r), String_attr ''http.path'' (Path r)],
       SetAttributes ''handleRoot'' [String_attr ''response.status'' ''success''],
       End ''handleRoot'']"
  by (simp add: handleRoot_c_def with_span_def Let_def)

subsection \<open>Span lifecycle\<close>

text \<open>
  Claim C8. Whatever the outbound call comes to (request not created, transport error,
  read error, body not decodable, success), every span the root handler or its
  outbound-call helper opens is started once and ended once, its end comes after its
  start and after every attribute or error recorded on it, and the handler produces
  events on no other span. It holds for the three nodes.
\<close>

theorem spans_end_once:
  "span_lifecycle ''handleRoot'' (snd (handleRoot_a http_get APP_B_URL r w))
   \<and> span_lifecycle ''callAppB'' (snd (handleRoot_a http_get APP_B_URL r w))
   \<and> span_lifecycle ''handleRoot'' (snd (handleRoot_b http_get APP_C_URL r w))
   \<and> span_lifecycle ''callAppC'' (snd (handleRoot_b http_get APP_C_URL r w))
   \<and> span_lifecycle ''handleRoot'' (snd (handleRoot_c r w))
   \<and> span_of ` set (snd (handleRoot_a http_get APP_B_URL r w)) = {''handleRoot'', ''callAppB''}
   \<and> span_of ` set (snd (handleRoot_b http_get APP_C_URL r w)) = {''handleRoot'', ''callAppC''}
   \<and> span_of ` set (snd (handleRoot_c r w)) = {''handleRoot''}"
proof -
  have a: "span_lifecycle ''handleRoot'' (snd (handleRoot_a http_get APP_B_URL r w))"
    by (simp add: handleRoot_a_cases callAppB_cases span_lifecycle_def
        split: exchange.splits sum.splits)
  have a': "span_lifecycle ''callAppB'' (snd (handleRoot_a http_get APP_B_URL r w))"
    by (simp add: handleRoot_a_cases callAppB_cases span_lifecycle_def
        split: exchange.splits sum.splits)
  have b: "span_lifecycle ''handleRoot'' (snd (handleRoot_b http_get APP_C_URL r w))"
    by (simp add: handleRoot_b_cases callAppC_cases span_lifecycle_def
        split: exchange.splits sum.splits)
  have b': "span_lifecycle ''callAppC'' (snd (handleRoot_b http_get APP_C_URL r w))"
    by (simp add: handleRoot_b_cases callAppC_cases span_lifecycle_def
        split: exchange.splits sum.splits)
  have c: "span_lifecycle ''handleRoot'' (snd (handleRoot_c r w))"
    by (simp add: handleRoot_c_events span_lifecycle_def)
  have sa: "span_of ` set (snd (handleRoot_a http_get APP_B_URL r w)) = {''handleRoot'', ''callAppB''}"
    by (auto simp: handleRoot_a_cases callAppB_cases split: exchange.splits sum.splits)
  have sb: "span_of ` set (snd (handleRoot_b http_get APP_C_URL r w)) = {''handleRoot'', ''callAppC''}"
    by (auto simp: handleRoot_b_cases callAppC_cases split: exchange.splits sum.splits)
  have sc: "span_of ` set (snd (handleRoot_c r w)) = {''handleRoot''}"
    by (simp add: handleRoot_c_events)
  from a a' b b' c sa sb sc show ?thesis by simp
qed


lemma handleHealth_eval:
  "handleHealth r ResponseWriter0 = (\<lparr>header = [], wroteHeader = Some 200, out = [Bytes ''OK'']\<rparr>, [])"
  by (simp add: handleHealth_def writer_defs)

lemma ServeMux_health:
  "Path r = ''/health'' \<Longrightarrow>
     otelhttp_NewHandler (ServeMux root handleHealth) ''/'' r ResponseWriter0 =
       (\<lparr>header = [], wroteHeader = Some 200, out = [Bytes ''OK'']\<rparr>,
        [Start ''/'', SetAttributes ''/'' [String_attr ''http.route'' ''/health''], End ''/''])"
  by (simp add: routing_defs handleHealth_eval)

subsection \<open>The health endpoint\<close>

text \<open>
  Claim C9, amended. On every node, a request for \<open>/health\<close> is answered with status
  200 and body \<open>OK\<close>, and \<open>handleHealth\<close> opens no span of its own. The request does not
  bypass the instrumentation that \<open>newHTTPHandler\<close> puts around every route: the one
  span recorded for it is the server span of \<open>otelhttp.NewHandler\<close>, tagged with the
  route by \<open>WithRouteTag\<close>.
\<close>

theorem health_traced_by_middleware_only:
  "Path r = ''/health'' \<longrightarrow>
     handleHealth r ResponseWriter0
       = (\<lparr>header = [], wroteHeader = Some 200, out = [Bytes ''OK'']\<rparr>, [])
     \<and> newHTTPHandler_a http_get APP_B_URL r ResponseWriter0 =
         (\<lparr>header = [], wroteHeader = Some 200, out = [Bytes ''OK'']\<rparr>,
          [Start ''/'', SetAttributes ''/'' [String_attr ''http.route'' ''/health''], End ''/''])
     \<and> newHTTPHandler_b http_get APP_C_URL r ResponseWriter0 =
         (\<lparr>header = [], wroteHeader = Some 200, out = [Bytes ''OK'']\<rparr>,
          [Start ''/'', SetAttributes ''/'' [String_attr ''http.route'' ''/health''], End ''/''])
     \<and> newHTTPHandler_c r ResponseWriter0 =
         (\<lparr>header = [], wroteHeader = Some 200, out = [Bytes ''OK'']\<rparr>,
          [Start ''/'', SetAttributes ''/'' [String_attr ''http.route'' ''/health''], End ''/''])"
  by (simp add: newHTTPHandler_a_def newHTTPHandler_b_def newHTTPHandler_c_def ServeMux_health
      handleHealth_eval)

theorem health_traced_by_middleware_only_witness:
  "Path GET_health = ''/health''
   \<and> newHTTPHandler_c GET_health ResponseWriter0 =
         (\<lparr>header = [], wroteHeader = Some 200, out = [Bytes ''OK'']\<rparr>,
          [Start ''/'', SetAttributes ''/'' [String_attr ''http.route'' ''/health''], End ''/''])"
proof -
  have h: "Path GET_health = ''/health''" by (simp add: GET_health_def)
  from health_traced_by_middleware_only [of GET_health] h show ?thesis by simp
qed

text \<open>
  Claim C9 as stated has the handling of a health request record no span. Served by
  the handler that \<open>newHTTPHandler\<close> returns, the request \<open>GET /health\<close> starts and ends
  the server span.
\<close>

theorem health_request_records_span:
  "snd (newHTTPHandler_c GET_health ResponseWriter0)
     = [Start ''/'', SetAttributes ''/'' [String_attr ''http.route'' ''/health''], End ''/'']
   \<and> snd (newHTTPHandler_c GET_health ResponseWriter0) \<noteq> []"
  by (simp add: newHTTPHandler_c_def ServeMux_health GET_health_def)

lemma ServeMux_root:
  "Path r = ''/'' \<Longrightarrow>
     fst (otelhttp_NewHandler (ServeMux root health) ''/'' r w)
       = fst (root (r\<lparr>ctx_span := Some ''/''\<rparr>) w)"
  by (simp add: routing_defs split: prod.splits)

lemma served_c:
  "answers parse (fst (newHTTPHandler_c GET_root ResponseWriter0)) =
     Received 200 (JSONText (JObject [(''service'', JString ''app-c''),
                                (''message'', JString ''Resposta final do App C''),
                                (''status'', JString ''success'')]))"
  by (simp add: newHTTPHandler_c_def ServeMux_root GET_root_def handleRoot_c_eval answers_def
      status_sent_def)

lemma decode_c:
  "json_Unmarshal (JSONText (JObject [(''service'', JString ''app-c''),
                                      (''message'', JString ''Resposta final do App C''),
                                      (''status'', JString ''success'')]))
     = Inr (JObject [(''service'', JString ''app-c''),
                     (''message'', JString ''Resposta final do App C''),
                     (''status'', JString ''success'')])"
  by (simp add: maxNestingDepth_def)

lemma decode_b:
  "json_Unmarshal (JSONText (JObject [(''service'', JString ''app-b''),
                                      (''message'', JString ''Chamou App C com sucesso''),
                                      (''result'', JObject [(''service'', JString ''app-c''),
                                         (''message'', JString ''Resposta final do App C''),
                                         (''status'', JString ''success'')])]))
     = Inr (JObject [(''service'', JString ''app-b''),
                     (''message'', JString ''Chamou App C com sucesso''),
                     (''result'', JObject [(''service'', JString ''app-c''),
                                           (''message'', JString ''Resposta final do App C''),
                                           (''status'', JString ''success'')])])"
  by (simp add: maxNestingDepth_def)

lemma served_b:
  "answers parse (fst (newHTTPHandler_b
      (always (Received code (JSONText (JObject [(''service'', JString ''app-c''),
                                                 (''message'', JString ''Resposta final do App C''),
                                                 (''status'', JString ''success'')]))))
      APP_C_URL GET_root ResponseWriter0)) =
     Received 200 (JSONText (JObject [(''service'', JString ''app-b''),
                                (''message'', JString ''Chamou App C com sucesso''),
                                (''result'', JObject [(''service'', JString ''app-c''),
                                                      (''message'', JString ''Resposta final do App C''),
                                                      (''status'', JString ''success'')])]))"
  by (simp add: newHTTPHandler_b_def ServeMux_root GET_root_def handleRoot_b_success
      callAppC_cases always_def answers_def status_sent_def decode_c del: json_Unmarshal.simps)

lemma served_a:
  "Path r = ''/'' \<Longrightarrow>
   fst (newHTTPHandler_a
      (always (Received code (JSONText (JObject [(''service'', JString ''app-b''),
                                (''message'', JString ''Chamou App C com sucesso''),
                                (''result'', JObject [(''service'', JString ''app-c''),
                                                      (''message'', JString ''Resposta final do App C''),
                                                      (''status'', JString ''success'')])]))))
      APP_B_URL r ResponseWriter0) =
     \<lparr>header = [(''Content-Type'', ''application/json'')],
       wroteHeader = Some 200,
       out = [Encoded (JObject [(''service'', JString ''app-a''),
                                (''message'', JString ''Chamou App B com sucesso''),
                                (''result'', JObject [(''service'', JString ''app-b''),
                                (''message'', JString ''Chamou App C com sucesso''),
                                (''result'', JObject [(''service'', JString ''app-c''),
                                                      (''message'', JString ''Resposta final do App C''),
                                                      (''status'', JString ''success'')])])])]\<rparr>"
  by (simp add: newHTTPHandler_a_def ServeMux_root handleRoot_a_success
      callAppB_cases always_def decode_b del: json_Unmarshal.simps)

lemma chain_eval:
  "Path r = ''/'' \<Longrightarrow>
   fst (chain parse APP_B_URL APP_C_URL r) =
     \<lparr>header = [(''Content-Type'', ''application/json'')],
       wroteHeader = Some 200,
       out = [Encoded (JObject
                [(''service'', JString ''app-a''),
                 (''message'', JString ''Chamou App B com sucesso''),
                 (''result'', JObject
                    [(''service'', JString ''app-b''),
                     (''message'', JString ''Chamou App C com sucesso''),
                     (''result'', JObject
                        [(''service'', JString ''app-c''),
                         (''message'', JString ''Resposta final do App C''),
                         (''status'', JString ''success'')])])])]\<rparr>"
  by (simp add: chain_def served_c served_b served_a)

subsection \<open>The chain scenario\<close>

text \<open>
  Claim C5. With B and C answering, a \<open>GET /\<close> on node A is answered with status 200
  and one JSON object. Its \<open>service\<close> is \<open>app-a\<close>; its \<open>result\<close> is the object B answered
  with, whose \<open>result\<close> is the payload of C, so that \<open>result.result.status\<close> is
  \<open>success\<close>.
\<close>

theorem chain_scenario:
  "Method r = ''GET'' \<and> Path r = ''/'' \<longrightarrow>
     (\<exists>v. wroteHeader (fst (chain parse APP_B_URL APP_C_URL r)) = Some 200
        \<and> out (fst (chain parse APP_B_URL APP_C_URL r)) = [Encoded v]
        \<and> jget v ''service'' = Some (JString ''app-a'')
        \<and> jget v ''result''
            = Some (JObject [(''service'', JString ''app-b''),
                             (''message'', JString ''Chamou App C com sucesso''),
                             (''result'', JObject [(''service'', JString ''app-c''),
                                                   (''message'', JString ''Resposta final do App C''),
                                                   (''status'', JString ''success'')])])
        \<and> jpath v [''result'', ''result'']
            = Some (JObject [(''service'', JString ''app-c''),
                             (''message'', JString ''Resposta final do App C''),
                             (''status'', JString ''success'')])
        \<and> jpath v [''result'', ''result'', ''status''] = Some (JString ''success''))"
  by (simp add: chain_eval)

theorem chain_scenario_witness:
  "Method GET_root = ''GET'' \<and> Path GET_root = ''/''
   \<and> wroteHeader (fst (chain unparsed [] [] GET_root)) = Some 200
   \<and> (\<exists>v. out (fst (chain unparsed [] [] GET_root)) = [Encoded v]
        \<and> jpath v [''result'', ''result'', ''status''] = Some (JString ''success''))"
proof -
  have h: "Method GET_root = ''GET'' \<and> Path GET_root = ''/''" by (simp add: GET_root_def)
  from chain_scenario [of GET_root unparsed "[]" "[]"] h
  show ?thesis by auto
qed


end
